theory Spec2Isabelle
  imports Complex_Main "HOL-Library.AList"
begin

section \<open>Time-warped PCA: the TWPCA estimator of twpca/model.py\<close>

subsection \<open>Scalars, arrays and Python errors\<close>

text \<open>
  An entry of a float array is a finite number, an infinity or not-a-number. The array
  given to \<open>fit\<close> may hold any finite number (a float64 array holds numbers that the 32-bit
  format has not). The cast \<open>X.astype(np.float32)\<close> rounds a finite entry to the nearest
  number of the 32-bit format, ties to even, and takes an entry beyond the range of the
  format to an infinity. The operations of the graph are those of the 32-bit format on
  infinities and not-a-number, and a finite result beyond the range is an infinity; within
  the range a result is the exact one, the rounding of each operation being left out.
\<close>

datatype npfloat = Finite real | PInf | NInf | NaN

type_synonym 'a tensor = "'a list list list"
type_synonym matrix = "real list list"

datatype error =
    ValueError string
  | AttributeError string
  | UnboundLocalError string
  | IndexError string

definition map3 :: "('a \<Rightarrow> 'b) \<Rightarrow> 'a tensor \<Rightarrow> 'b tensor" where
  "map3 f = map (map (map f))"

text \<open>\<open>X.shape\<close> of a three-dimensional array held as nested lists (an array with no
  trial reports no timestep and no neuron here).\<close>

definition shape3 :: "'a tensor \<Rightarrow> nat \<times> nat \<times> nat" where
  "shape3 X =
     (length X,
      (case X of [] \<Rightarrow> 0 | t # _ \<Rightarrow> length t),
      (case X of [] \<Rightarrow> 0 | t # _ \<Rightarrow> (case t of [] \<Rightarrow> 0 | r # _ \<Rightarrow> length r)))"

fun isfinite :: "npfloat \<Rightarrow> bool" where
  "isfinite (Finite r) = True"
| "isfinite PInf = False"
| "isfinite NInf = False"
| "isfinite NaN = False"

text \<open>The largest finite number of the 32-bit format, and the least magnitude that rounds
  to an infinity: the midpoint between that number and \<open>2 ^ 128\<close>.\<close>

definition float32_max :: real where
  "float32_max = 2 ^ 128 - 2 ^ 104"

definition float32_overflow :: real where
  "float32_overflow = 2 ^ 128 - 2 ^ 103"

text \<open>Rounding to the nearest integer, a tie to the even one.\<close>

definition round_half_even :: "real \<Rightarrow> int" where
  "round_half_even x =
     (let f = \<lfloor>x\<rfloor>; d = x - of_int f
      in if d < 1 / 2 then f else if 1 / 2 < d then f + 1 else if even f then f else f + 1)"

text \<open>The spacing of the 32-bit numbers around \<open>r\<close>: 24 significant bits, and the exponent
  of the subnormal numbers below \<open>2 ^ - 126\<close>.\<close>

definition float32_ulp :: "real \<Rightarrow> real" where
  "float32_ulp r = 2 powr (of_int (max \<lfloor>log 2 \<bar>r\<bar>\<rfloor> (- 126)) - 23)"

definition round_float32 :: "real \<Rightarrow> real" where
  "round_float32 r =
     (if r = 0 then 0 else of_int (round_half_even (r / float32_ulp r)) * float32_ulp r)"

text \<open>\<open>X.astype(np.float32)\<close> on one entry.\<close>

fun astype_float32 :: "npfloat \<Rightarrow> npfloat" where
  "astype_float32 (Finite r) =
     (if float32_overflow \<le> r then PInf
      else if r \<le> - float32_overflow then NInf
      else Finite (round_float32 r))"
| "astype_float32 PInf = PInf"
| "astype_float32 NInf = NInf"
| "astype_float32 NaN = NaN"

text \<open>\<open>np.nan_to_num\<close>: not-a-number becomes zero, an infinity the largest finite
  magnitude of the format with its sign.\<close>

fun nan_to_num :: "npfloat \<Rightarrow> real" where
  "nan_to_num (Finite r) = r"
| "nan_to_num NaN = 0"
| "nan_to_num PInf = float32_max"
| "nan_to_num NInf = - float32_max"

text \<open>\<open>np.sum\<close> of a boolean array counts its true entries.\<close>

definition np_sum_bool :: "bool tensor \<Rightarrow> nat" where
  "np_sum_bool M = length (filter (\<lambda>b. b) (concat (concat M)))"

text \<open>A boolean array turned into a float32 constant.\<close>

definition bool_to_float :: "bool \<Rightarrow> real" where
  "bool_to_float b = (if b then 1 else 0)"

text \<open>\<open>np.argmax\<close> along a row of booleans: a left-to-right scan that keeps the first
  position of the largest value; an empty row raises.\<close>

fun argmax_scan :: "bool \<Rightarrow> nat \<Rightarrow> nat \<Rightarrow> bool list \<Rightarrow> nat" where
  "argmax_scan best bi i [] = bi"
| "argmax_scan best bi i (x # xs) =
     (if best < x then argmax_scan x i (Suc i) xs else argmax_scan best bi (Suc i) xs)"

fun argmax :: "bool list \<Rightarrow> error + nat" where
  "argmax [] = Inl (ValueError ''attempt to get argmax of an empty sequence'')"
| "argmax (x # xs) = Inr (argmax_scan x 0 1 xs)"

fun argmax_axis1 :: "bool list list \<Rightarrow> error + nat list" where
  "argmax_axis1 [] = Inr []"
| "argmax_axis1 (r # rs) =
     (case argmax r of
        Inl e \<Rightarrow> Inl e
      | Inr a \<Rightarrow> (case argmax_axis1 rs of Inl e \<Rightarrow> Inl e | Inr as \<Rightarrow> Inr (a # as)))"

text \<open>Lines 104-108 of \<open>fit\<close>: \<open>np.all(np_mask, axis=-1)[:, ::-1]\<close>, its argmax along the
  time axis, and the index mapped back to the unreversed trial.\<close>

definition all_last_axis :: "bool tensor \<Rightarrow> bool list list" where
  "all_last_axis M = map (map (list_all (\<lambda>b. b))) M"

definition rev_last_idx :: "bool tensor \<Rightarrow> error + nat list" where
  "rev_last_idx M = argmax_axis1 (map rev (all_last_axis M))"

definition last_idx_of :: "nat \<Rightarrow> nat list \<Rightarrow> int list" where
  "last_idx_of n_timesteps rs = map (\<lambda>r. int n_timesteps - int r) rs"

subsection \<open>Operations of the computation graph\<close>

definition softplus :: "real \<Rightarrow> real" where
  "softplus x = ln (1 + exp x)"

text \<open>\<open>rectifier = tf.nn.softplus if self.nonneg else tf.identity\<close>, applied entrywise.\<close>

definition rectifier :: "bool \<Rightarrow> matrix \<Rightarrow> matrix" where
  "rectifier nn A = (if nn then map (map softplus) A else A)"

text \<open>\<open>tf.tile(tf.expand_dims(A, [0]), [n_trials, 1, 1])\<close>.\<close>

definition tile_trials :: "nat \<Rightarrow> matrix \<Rightarrow> real tensor" where
  "tile_trials n_trials A = replicate n_trials A"

definition dot2 :: "real list \<Rightarrow> real list \<Rightarrow> real" where
  "dot2 a b = sum_list (map (\<lambda>(x, y). x * y) (zip a b))"

definition dot3 :: "real list \<Rightarrow> real list \<Rightarrow> real list \<Rightarrow> real" where
  "dot3 a b c = sum_list (map (\<lambda>(x, y, z). x * y * z) (zip a (zip b c)))"

text \<open>\<open>tf.einsum('ijk,nk->ijn', W, N)\<close> and \<open>tf.einsum('ik,ijk,nk->ijn', T, W, N)\<close>.
  The library rejects operands whose shared dimensions differ; the theorems below
  are stated for operands of matching shapes.\<close>

definition einsum_ijk_nk :: "real tensor \<Rightarrow> matrix \<Rightarrow> real tensor" where
  "einsum_ijk_nk W N = map (\<lambda>Wi. map (\<lambda>w. map (\<lambda>nu. dot2 w nu) N) Wi) W"

definition einsum_ik_ijk_nk :: "matrix \<Rightarrow> real tensor \<Rightarrow> matrix \<Rightarrow> real tensor" where
  "einsum_ik_ijk_nk T W N =
     map (\<lambda>(t, Wi). map (\<lambda>w. map (\<lambda>nu. dot3 t w nu) N) Wi) (zip T W)"

text \<open>An entrywise operation on two arrays of one shape.\<close>

definition zip3 :: "('a \<Rightarrow> 'b \<Rightarrow> 'c) \<Rightarrow> 'a tensor \<Rightarrow> 'b tensor \<Rightarrow> 'c tensor" where
  "zip3 f A B =
     map (\<lambda>(a, b). map (\<lambda>(r, s). map (\<lambda>(x, y). f x y) (zip r s)) (zip a b)) (zip A B)"

text \<open>
  The 32-bit result of an operation on finite numbers whose exact result is \<open>r\<close>: an
  infinity when \<open>r\<close> is beyond the range. Then the product, the sum and the quotient of the
  format: not-a-number propagates, \<open>0 * inf\<close>, \<open>inf - inf\<close> and \<open>0 / 0\<close> are not-a-number, a
  finite number other than zero divided by zero is an infinity.
\<close>

definition float32_result :: "real \<Rightarrow> npfloat" where
  "float32_result r =
     (if float32_overflow \<le> r then PInf
      else if r \<le> - float32_overflow then NInf
      else Finite r)"

fun fl_sign :: "npfloat \<Rightarrow> real" where
  "fl_sign (Finite a) = sgn a"
| "fl_sign PInf = 1"
| "fl_sign NInf = - 1"
| "fl_sign NaN = 0"

fun fl_mul :: "npfloat \<Rightarrow> npfloat \<Rightarrow> npfloat" where
  "fl_mul (Finite a) (Finite b) = float32_result (a * b)"
| "fl_mul NaN y = NaN"
| "fl_mul x NaN = NaN"
| "fl_mul x y =
     (if fl_sign x * fl_sign y = 0 then NaN
      else if 0 < fl_sign x * fl_sign y then PInf else NInf)"

fun fl_plus :: "npfloat \<Rightarrow> npfloat \<Rightarrow> npfloat" where
  "fl_plus (Finite a) (Finite b) = float32_result (a + b)"
| "fl_plus NaN y = NaN"
| "fl_plus x NaN = NaN"
| "fl_plus PInf NInf = NaN"
| "fl_plus NInf PInf = NaN"
| "fl_plus PInf y = PInf"
| "fl_plus NInf y = NInf"
| "fl_plus x PInf = PInf"
| "fl_plus x NInf = NInf"

text \<open>\<open>tf.reduce_sum\<close> over all entries, added one after the other in the order of the
  array. (The order is the library's; the theorems below use the sum on terms that are not
  negative, where overflow and not-a-number do not depend on it.)\<close>

definition reduce_sum :: "npfloat tensor \<Rightarrow> npfloat" where
  "reduce_sum A = foldl fl_plus (Finite 0) (concat (concat A))"

text \<open>The quotient by a count and the sum with a finite number.\<close>

fun fl_div :: "npfloat \<Rightarrow> real \<Rightarrow> npfloat" where
  "fl_div (Finite a) b =
     (if b \<noteq> 0 then float32_result (a / b)
      else if 0 < a then PInf else if a < 0 then NInf else NaN)"
| "fl_div PInf b = (if 0 \<le> b then PInf else NInf)"
| "fl_div NInf b = (if 0 \<le> b then NInf else PInf)"
| "fl_div NaN b = NaN"

fun fl_add :: "npfloat \<Rightarrow> real \<Rightarrow> npfloat" where
  "fl_add (Finite a) r = float32_result (a + r)"
| "fl_add PInf r = PInf"
| "fl_add NInf r = NInf"
| "fl_add NaN r = NaN"

subsection \<open>The estimator, its session and its collaborators\<close>

text \<open>The keys of the dictionaries \<open>_regularizers\<close>, \<open>_raw_params\<close> and \<open>_params\<close>.\<close>

datatype pkey = Trial | Time | Neuron | Warp

text \<open>
  The values of the TensorFlow variables held by the session: the raw factor matrices, the
  variables behind the warps and the slots of the optimizer. When \<open>fit_trial_factors\<close> is
  off the source creates no trial variable, and no node of the graph reads the field.
\<close>

record ('w, 'o) variables =
  time_factors :: matrix
  neuron_factors :: matrix
  trial_factors :: matrix
  warp_vars :: 'w
  opt_slots :: 'o

text \<open>
  The modules \<open>warp\<close> and \<open>utils\<close>, the optimizer and the least-squares solver of numpy are
  not part of model.py; they are parameters of the model:
  \<^item> \<open>generate_warps n_trials n_timesteps shared_length data last_idx\<close> gives the initial
    warp variables (the warp type, initialisation and origin index are fixed in it), and
    \<open>warp_node\<close> the value of the tensor \<open>_params['warp']\<close> from them;
  \<^item> \<open>warp\<close> is \<open>warp.warp\<close>;
  \<^item> \<open>compute_lowrank_factors\<close> is \<open>utils.compute_lowrank_factors\<close>;
  \<^item> \<open>minimize objective lr\<close> is one run of the training operation built by
    \<open>optimizer(lr).minimize(objective, var_list)\<close>;
  \<^item> \<open>lstsq a b\<close> is \<open>np.linalg.lstsq(a, b)[0]\<close>.
  The inverse warps are used by \<open>transform\<close> alone and are left out with it.
\<close>

record ('w, 'o) collab =
  generate_warps :: "nat \<Rightarrow> nat \<Rightarrow> nat \<Rightarrow> npfloat tensor \<Rightarrow> int list \<Rightarrow> error + 'w"
  warp_node :: "'w \<Rightarrow> matrix"
  warp :: "real tensor \<Rightarrow> matrix \<Rightarrow> real tensor"
  compute_lowrank_factors ::
    "npfloat tensor \<Rightarrow> nat \<Rightarrow> bool \<Rightarrow> bool \<Rightarrow> int list \<Rightarrow> error + (matrix \<times> matrix \<times> matrix)"
  init_slots :: 'o
  minimize ::
    "(('w, 'o) variables \<Rightarrow> npfloat) \<Rightarrow> real \<Rightarrow> ('w, 'o) variables \<Rightarrow> ('w, 'o) variables"
  lstsq :: "matrix \<Rightarrow> matrix \<Rightarrow> matrix"

text \<open>
  The attributes of a TWPCA object. A node of the graph is a function of the variable
  values; an attribute that \<open>__init__\<close> does not set is \<open>None\<close> until \<open>fit\<close> assigns it.
  \<open>params\<close> is the dictionary \<open>_params\<close> in insertion order, \<open>X_data\<close> the constant \<open>self.X\<close>.
\<close>

record ('w, 'o) twpca =
  n_components :: nat
  shared_length :: "nat option"
  fit_trial_factors :: bool
  nonneg :: bool
  regularizers :: "pkey \<Rightarrow> matrix \<Rightarrow> real"
  params :: "(pkey \<times> (('w, 'o) variables \<Rightarrow> matrix)) list"
  sess :: "('w, 'o) variables option"
  X_data :: "real tensor option"
  mask :: "real tensor option"
  num_datapoints :: "nat option"
  last_idx :: "int list option"
  warped_time_factors :: "(('w, 'o) variables \<Rightarrow> real tensor) option"
  X_pred :: "(('w, 'o) variables \<Rightarrow> real tensor) option"
  recon_cost :: "(('w, 'o) variables \<Rightarrow> npfloat) option"
  objective :: "(('w, 'o) variables \<Rightarrow> npfloat) option"
  train_op :: "(real \<Rightarrow> ('w, 'o) variables \<Rightarrow> ('w, 'o) variables) option"
  obj_history :: "npfloat list option"

definition TWPCA_init ::
  "nat \<Rightarrow> nat option \<Rightarrow> (pkey \<Rightarrow> matrix \<Rightarrow> real) \<Rightarrow> bool \<Rightarrow> bool \<Rightarrow> ('w, 'o) twpca" where
  "TWPCA_init n_comp shared_len regs nn ftf =
     \<lparr> n_components = n_comp, shared_length = shared_len, fit_trial_factors = ftf,
       nonneg = nn, regularizers = regs, params = [], sess = None, X_data = None,
       mask = None, num_datapoints = None, last_idx = None, warped_time_factors = None,
       X_pred = None, recon_cost = None, objective = None, train_op = None,
       obj_history = None \<rparr>"

subsection \<open>train\<close>

text \<open>
  One pass of the comprehension of \<open>train\<close>: each \<open>self._sess.run(ops, ...)\<close> fetches the
  objective at the current variable values and runs the training operation once.
\<close>

fun run_steps ::
  "(('w, 'o) variables \<Rightarrow> npfloat) \<Rightarrow> (('w, 'o) variables \<Rightarrow> ('w, 'o) variables) \<Rightarrow> nat \<Rightarrow>
   ('w, 'o) variables \<Rightarrow> npfloat list \<times> ('w, 'o) variables" where
  "run_steps obj step 0 v = ([], v)"
| "run_steps obj step (Suc k) v =
     (case run_steps obj step k (step v) of (vals, v') \<Rightarrow> (obj v # vals, v'))"

text \<open>\<open>range(niter)\<close> has \<open>nat niter\<close> elements (none for a negative \<open>niter\<close>). The result
  is the exception raised, if any, and the object after the call.\<close>

definition train :: "int \<Rightarrow> real \<Rightarrow> ('w, 'o) twpca \<Rightarrow> error option \<times> ('w, 'o) twpca" where
  "train niter lr m =
     (case objective m of
        None \<Rightarrow> (Some (AttributeError ''objective''), m)
      | Some obj \<Rightarrow>
         (case train_op m of
            None \<Rightarrow> (Some (AttributeError ''_train_op''), m)
          | Some tr \<Rightarrow>
             (case sess m of
                None \<Rightarrow>
                  (if nat niter = 0
                   then (case obj_history m of
                           None \<Rightarrow> (Some (AttributeError ''obj_history''), m)
                         | Some h \<Rightarrow> (None, m\<lparr>obj_history := Some (h @ [])\<rparr>))
                   else (Some (AttributeError ''run''), m))
              | Some v \<Rightarrow>
                 (case run_steps obj (tr lr) (nat niter) v of
                    (vals, v') \<Rightarrow>
                      (case obj_history m of
                         None \<Rightarrow> (Some (AttributeError ''obj_history''), m\<lparr>sess := Some v'\<rparr>)
                       | Some h \<Rightarrow>
                           (None, m\<lparr>sess := Some v', obj_history := Some (h @ vals)\<rparr>))))))"

text \<open>\<open>for train_args in zip(niter, lr): self.train(*train_args, ...)\<close>\<close>

fun train_phases ::
  "(int \<times> real) list \<Rightarrow> ('w, 'o) twpca \<Rightarrow> error option \<times> ('w, 'o) twpca" where
  "train_phases [] m = (None, m)"
| "train_phases ((n, l) # ps) m =
     (case train n l m of
        (Some e, m') \<Rightarrow> (Some e, m')
      | (None, m') \<Rightarrow> train_phases ps m')"

subsection \<open>fit\<close>

text \<open>An argument that is a number (\<open>np.iterable\<close> is false) or an iterable of numbers.\<close>

datatype 'a numarg = Scalar 'a | Iterable "'a list"

text \<open>Lines 78-90: the phases of the schedule, or the \<open>ValueError\<close> raised.\<close>

fun schedule :: "int numarg \<Rightarrow> real numarg \<Rightarrow> error + (int list \<times> real list)" where
  "schedule (Scalar n) (Scalar l) = Inr ([n], [l])"
| "schedule (Iterable ns) (Iterable ls) =
     (if length ns \<noteq> length ls
      then Inl (ValueError ''niter and lr must have the same length.'')
      else Inr (ns, ls))"
| "schedule (Scalar n) (Iterable ls) =
     Inl (ValueError ''niter and lr must either be numbers or iterables of the same length.'')"
| "schedule (Iterable ns) (Scalar l) =
     Inl (ValueError ''niter and lr must either be numbers or iterables of the same length.'')"

text \<open>The nodes built by lines 111-144.\<close>

definition warp_param_node :: "('w, 'o) collab \<Rightarrow> ('w, 'o) variables \<Rightarrow> matrix" where
  "warp_param_node env = (\<lambda>v. warp_node env (warp_vars v))"

definition factor_node ::
  "bool \<Rightarrow> (('w, 'o) variables \<Rightarrow> matrix) \<Rightarrow> ('w, 'o) variables \<Rightarrow> matrix" where
  "factor_node nn raw = (\<lambda>v. rectifier nn (raw v))"

definition warped_node ::
  "('w, 'o) collab \<Rightarrow> nat \<Rightarrow> (('w, 'o) variables \<Rightarrow> matrix) \<Rightarrow> (('w, 'o) variables \<Rightarrow> matrix) \<Rightarrow>
   ('w, 'o) variables \<Rightarrow> real tensor" where
  "warped_node env n_trials p_time p_warp =
     (\<lambda>v. warp env (tile_trials n_trials (p_time v)) (p_warp v))"

definition X_pred_node ::
  "bool \<Rightarrow> (('w, 'o) variables \<Rightarrow> matrix) \<Rightarrow> (('w, 'o) variables \<Rightarrow> real tensor) \<Rightarrow>
   (('w, 'o) variables \<Rightarrow> matrix) \<Rightarrow> ('w, 'o) variables \<Rightarrow> real tensor" where
  "X_pred_node ftf p_trial wtf p_neuron =
     (if ftf then (\<lambda>v. einsum_ik_ijk_nk (p_trial v) (wtf v) (p_neuron v))
      else (\<lambda>v. einsum_ijk_nk (wtf v) (p_neuron v)))"

text \<open>Line 143:
  \<open>tf.reduce_sum(self._mask * (self.X_pred - self.X)**2) / self._num_datapoints\<close>.
  The prediction and the stored data are finite; the difference, the square, the product
  with the mask, the sum and the quotient are operations of the 32-bit format.\<close>

definition recon_node ::
  "real tensor \<Rightarrow> real tensor \<Rightarrow> nat \<Rightarrow> (('w, 'o) variables \<Rightarrow> real tensor) \<Rightarrow>
   ('w, 'o) variables \<Rightarrow> npfloat" where
  "recon_node M Xc num xp =
     (\<lambda>v. fl_div
             (reduce_sum
                (zip3 (\<lambda>mk s. fl_mul (Finite mk) s) M
                   (map3 (\<lambda>d. fl_mul d d) (zip3 (\<lambda>p x. float32_result (p - x)) (xp v) Xc))))
             (real num))"

text \<open>The property \<open>regularization\<close>:
  \<open>sum(self._regularizers[key](param) for key, param in self._params.items())\<close>.\<close>

definition regularization ::
  "(pkey \<Rightarrow> matrix \<Rightarrow> real) \<Rightarrow> (pkey \<times> (('w, 'o) variables \<Rightarrow> matrix)) list \<Rightarrow>
   ('w, 'o) variables \<Rightarrow> real" where
  "regularization regs ps = (\<lambda>v. sum_list (map (\<lambda>(key, node). regs key (node v)) ps))"

definition objective_node ::
  "(('w, 'o) variables \<Rightarrow> npfloat) \<Rightarrow> (('w, 'o) variables \<Rightarrow> real) \<Rightarrow>
   ('w, 'o) variables \<Rightarrow> npfloat" where
  "objective_node rc reg = (\<lambda>v. fl_add (rc v) (reg v))"

text \<open>Lines 119-159: the factor variables and their nodes, the prediction, the objective,
  the empty history, the session with the variables initialised, the training operation.\<close>

definition fit_graph ::
  "('w, 'o) collab \<Rightarrow> nat \<Rightarrow> real tensor \<Rightarrow> real tensor \<Rightarrow> nat \<Rightarrow> 'w \<Rightarrow>
   matrix \<times> matrix \<times> matrix \<Rightarrow> ('w, 'o) twpca \<Rightarrow> ('w, 'o) twpca" where
  "fit_graph env n_trials Xc M num w_init inits m =
     (case inits of (trial_init, time_init, neuron_init) \<Rightarrow>
        (let p_warp = warp_param_node env;
             p_time = factor_node (nonneg m) time_factors;
             p_neuron = factor_node (nonneg m) neuron_factors;
             p_trial = factor_node (nonneg m) trial_factors;
             ps1 = AList.update Neuron p_neuron (AList.update Time p_time (params m));
             ps = (if fit_trial_factors m then AList.update Trial p_trial ps1 else ps1);
             wtf = warped_node env n_trials p_time p_warp;
             xp = X_pred_node (fit_trial_factors m) p_trial wtf p_neuron;
             rc = recon_node M Xc num xp;
             ob = objective_node rc (regularization (regularizers m) ps)
         in m\<lparr> params := ps,
               warped_time_factors := Some wtf,
               X_pred := Some xp,
               recon_cost := Some rc,
               objective := Some ob,
               obj_history := Some [],
               sess := Some \<lparr> time_factors = time_init, neuron_factors = neuron_init,
                              trial_factors = (if fit_trial_factors m then trial_init else []),
                              warp_vars = w_init, opt_slots = init_slots env \<rparr>,
               train_op := Some (minimize env ob) \<rparr>))"

text \<open>\<open>fit\<close>: the exception raised, if any, and the object after the call.\<close>

definition fit ::
  "('w, 'o) collab \<Rightarrow> npfloat tensor \<Rightarrow> int numarg \<Rightarrow> real numarg \<Rightarrow> ('w, 'o) twpca \<Rightarrow>
   error option \<times> ('w, 'o) twpca" where
  "fit env X niter lr m =
     (let sl = (case shared_length m of None \<Rightarrow> fst (snd (shape3 X)) | Some s \<Rightarrow> s);
          m1 = m\<lparr>shared_length := Some sl\<rparr>
      in case schedule niter lr of
           Inl e \<Rightarrow> (Some e, m1)
         | Inr (ns, ls) \<Rightarrow>
            (let np_X = map3 astype_float32 X;
                 Xc = map3 nan_to_num np_X;
                 n_trials = fst (shape3 np_X);
                 n_timesteps = fst (snd (shape3 np_X));
                 np_mask = map3 isfinite X;
                 num = np_sum_bool np_mask;
                 M = map3 bool_to_float np_mask;
                 m2 = m1\<lparr>X_data := Some Xc, num_datapoints := Some num, mask := Some M\<rparr>
             in case rev_last_idx np_mask of
                  Inl e \<Rightarrow> (Some e, m2)
                | Inr rs \<Rightarrow>
                   (let lidx = last_idx_of n_timesteps rs;
                        m3 = m2\<lparr>last_idx := Some lidx\<rparr>
                    in case generate_warps env n_trials n_timesteps sl np_X lidx of
                         Inl e \<Rightarrow> (Some e, m3)
                       | Inr w_init \<Rightarrow>
                          (let m4 = m3\<lparr>params :=
                                          AList.update Warp (warp_param_node env) (params m3)\<rparr>
                           in case compute_lowrank_factors env np_X (n_components m)
                                     (fit_trial_factors m) (nonneg m) lidx of
                                Inl e \<Rightarrow> (Some e, m4)
                              | Inr inits \<Rightarrow>
                                  train_phases (zip ns ls)
                                    (fit_graph env n_trials Xc M num w_init inits m4)))))"

subsection \<open>params and predict\<close>

text \<open>The property \<open>params\<close>: the session evaluates every node of \<open>_params\<close>.\<close>

definition params_snapshot :: "('w, 'o) twpca \<Rightarrow> error + (pkey \<times> matrix) list" where
  "params_snapshot m =
     (case sess m of
        None \<Rightarrow> Inl (AttributeError ''run'')
      | Some v \<Rightarrow> Inr (map (\<lambda>(key, node). (key, node v)) (params m)))"

text \<open>The argument of \<open>predict\<close>: \<open>None\<close>, a three-dimensional numpy array, a TensorFlow
  tensor, or any other object.\<close>

datatype pyarg = PyNone | Ndarray "npfloat tensor" | TfTensor "npfloat tensor" | PyObject

fun chunks :: "nat \<Rightarrow> 'a list \<Rightarrow> 'a list list" where
  "chunks c xs = (if c = 0 \<or> xs = [] then [] else take c xs # chunks c (drop c xs))"

text \<open>\<open>a.reshape(-1, c)\<close> of the flattened entries.\<close>

definition reshape_rows :: "nat \<Rightarrow> 'a list \<Rightarrow> error + 'a list list" where
  "reshape_rows c flat =
     (if c = 0 \<or> length flat mod c \<noteq> 0
      then Inl (ValueError ''cannot reshape array'')
      else Inr (chunks c flat))"

text \<open>\<open>a.reshape(n_trials, n_timepoints, n_neurons)\<close> of a matrix with
  \<open>n_trials * n_timepoints\<close> rows.\<close>

definition reshape3 :: "nat \<Rightarrow> nat \<Rightarrow> 'a list list \<Rightarrow> 'a tensor" where
  "reshape3 n_trials n_timepoints rows =
     (if n_timepoints = 0 then replicate n_trials [] else chunks n_timepoints rows)"

text \<open>A row of the unfolded data when every neuron is recorded in it.\<close>

fun finite_row :: "npfloat list \<Rightarrow> real list option" where
  "finite_row [] = Some []"
| "finite_row (Finite r # xs) = map_option ((#) r) (finite_row xs)"
| "finite_row (PInf # xs) = None"
| "finite_row (NInf # xs) = None"
| "finite_row (NaN # xs) = None"

definition matmul :: "matrix \<Rightarrow> matrix \<Rightarrow> matrix" where
  "matmul A B = map (\<lambda>a. map (\<lambda>b. dot2 a b) (transpose B)) A"

text \<open>Lines 236-251: the size checks, the least-squares refit of the neuron factors on the
  rows where all neurons are finite, and the reconstruction.\<close>

definition predict_refit ::
  "('w, 'o) collab \<Rightarrow> nat \<Rightarrow> real tensor \<Rightarrow> npfloat tensor \<Rightarrow> error + real tensor" where
  "predict_refit env n_comp warped_factors A =
     (let n_trials = fst (shape3 A);
          n_timepoints = fst (snd (shape3 A));
          n_neurons = snd (snd (shape3 A))
      in if length warped_factors \<noteq> n_trials
         then Inl (ValueError ''Data does not have the expected number of trials.'')
         else if fst (snd (shape3 warped_factors)) \<noteq> n_timepoints
         then Inl (ValueError ''Data does not have the expected number of timepoints.'')
         else
           (case reshape_rows n_comp (concat (concat warped_factors)) of
              Inl e \<Rightarrow> Inl e
            | Inr time_fs \<Rightarrow>
               (case reshape_rows n_neurons (concat (concat A)) of
                  Inl e \<Rightarrow> Inl e
                | Inr X_unf \<Rightarrow>
                   if length time_fs \<noteq> length X_unf
                   then Inl (IndexError ''boolean index did not match indexed array'')
                   else
                     (let rows = List.map_filter
                                   (\<lambda>(t, x). map_option (Pair t) (finite_row x))
                                   (zip time_fs X_unf);
                          neuron_fs = lstsq env (map fst rows) (map snd rows);
                          Xp = transpose (matmul (transpose neuron_fs) (transpose time_fs))
                      in Inr (reshape3 n_trials n_timepoints Xp)))))"

text \<open>
  \<open>predict\<close>. With \<open>fit_trial_factors\<close> set, line 232 reads \<open>self.self\<close>, an attribute
  that no TWPCA object has, right after the warped factors have been fetched. An argument
  that is neither \<open>None\<close> nor an array leaves \<open>X_pred\<close> unassigned at the \<open>return\<close>.
\<close>

definition predict ::
  "('w, 'o) collab \<Rightarrow> ('w, 'o) twpca \<Rightarrow> pyarg \<Rightarrow> error + real tensor" where
  "predict env m X =
     (case sess m of
        None \<Rightarrow>
          Inl (ValueError
            ''No model has been fit - must call TWPCA.fit() before TWPCA.predict().'')
      | Some v \<Rightarrow>
         (case X of
            PyNone \<Rightarrow>
              (case X_pred m of
                 None \<Rightarrow> Inl (AttributeError ''X_pred'')
               | Some xp \<Rightarrow> Inr (xp v))
          | Ndarray A \<Rightarrow>
              (case warped_time_factors m of
                 None \<Rightarrow> Inl (AttributeError ''_warped_time_factors'')
               | Some wtf \<Rightarrow>
                   if fit_trial_factors m then Inl (AttributeError ''self'')
                   else predict_refit env (n_components m) (wtf v) A)
          | TfTensor A \<Rightarrow> Inl (UnboundLocalError ''X_pred'')
          | PyObject \<Rightarrow> Inl (UnboundLocalError ''X_pred'')))"

subsection \<open>The object that \<open>fit\<close> hands to the optimizer\<close>

text \<open>The attributes assigned by lines 74-112 once the warps exist, for the argmax result
  \<open>rs\<close>, and the object built by lines 114-159 from it.\<close>

definition fit_prepared ::
  "('w, 'o) collab \<Rightarrow> npfloat tensor \<Rightarrow> nat list \<Rightarrow> ('w, 'o) twpca \<Rightarrow> ('w, 'o) twpca" where
  "fit_prepared env X rs m =
     m\<lparr>shared_length :=
         Some (case shared_length m of None \<Rightarrow> fst (snd (shape3 X)) | Some s \<Rightarrow> s),
       X_data := Some (map3 nan_to_num (map3 astype_float32 X)),
       num_datapoints := Some (np_sum_bool (map3 isfinite X)),
       mask := Some (map3 bool_to_float (map3 isfinite X)),
       last_idx := Some (last_idx_of (fst (snd (shape3 X))) rs),
       params := AList.update Warp (warp_param_node env) (params m)\<rparr>"

definition fit_built ::
  "('w, 'o) collab \<Rightarrow> npfloat tensor \<Rightarrow> nat list \<Rightarrow> 'w \<Rightarrow> matrix \<times> matrix \<times> matrix \<Rightarrow>
   ('w, 'o) twpca \<Rightarrow> ('w, 'o) twpca" where
  "fit_built env X rs w inits m =
     fit_graph env (fst (shape3 X)) (map3 nan_to_num (map3 astype_float32 X))
       (map3 bool_to_float (map3 isfinite X)) (np_sum_bool (map3 isfinite X))
       w inits (fit_prepared env X rs m)"

subsection \<open>An example: one trial, two timesteps, one neuron\<close>

text \<open>
  Collaborators for the examples: warps that leave the time factors as they are, fixed
  initial factors for one component, and a training operation that lowers every time
  factor by the learning rate. The second timestep of the only trial is missing.
\<close>

definition example_collab :: "(unit, unit) collab" where
  "example_collab =
     \<lparr> generate_warps = (\<lambda>n_trials n_timesteps sl data lidx. Inr ()),
       warp_node = (\<lambda>w. [[0, 1]]),
       warp = (\<lambda>A w. A),
       compute_lowrank_factors = (\<lambda>data k ftf nn lidx. Inr ([[2]], [[1], [2]], [[3]])),
       init_slots = (),
       minimize = (\<lambda>ob l v. v\<lparr>time_factors := map (map (\<lambda>x. x - l)) (time_factors v)\<rparr>),
       lstsq = (\<lambda>a b. []) \<rparr>"

definition example_X :: "npfloat tensor" where
  "example_X = [[[Finite 1], [NaN]]]"

definition example_model :: "bool \<Rightarrow> bool \<Rightarrow> (unit, unit) twpca" where
  "example_model nn ftf = TWPCA_init 1 None (\<lambda>key A. real (length A)) nn ftf"

text \<open>A second input: two trials, the second without any timestep at which its neuron
  is finite.\<close>

definition example_X2 :: "npfloat tensor" where
  "example_X2 = [[[Finite 1], [NaN]], [[NaN], [PInf]]]"

text \<open>A third input without missing entries, of the same shape as the first, and an array
  of two trials for \<open>predict\<close>.\<close>

definition example_X3 :: "npfloat tensor" where
  "example_X3 = [[[Finite 1], [Finite 2]]]"

definition example_Y :: "npfloat tensor" where
  "example_Y = [[[Finite 1], [Finite 2]], [[Finite 3], [Finite 4]]]"

text \<open>Values of the variables at which the nodes of the example are evaluated.\<close>

definition example_vars :: "(unit, unit) variables" where
  "example_vars =
     \<lparr> time_factors = [[1], [2]], neuron_factors = [[3]], trial_factors = [[2]],
       warp_vars = (), opt_slots = () \<rparr>"

text \<open>The dictionary \<open>_params\<close> after lines 111-129.\<close>

definition fit_params ::
  "('w, 'o) collab \<Rightarrow> ('w, 'o) twpca \<Rightarrow> (pkey \<times> (('w, 'o) variables \<Rightarrow> matrix)) list" where
  "fit_params env m =
     (let ps1 = AList.update Neuron (factor_node (nonneg m) neuron_factors)
                  (AList.update Time (factor_node (nonneg m) time_factors)
                     (AList.update Warp (warp_param_node env) (params m)))
      in if fit_trial_factors m
         then AList.update Trial (factor_node (nonneg m) trial_factors) ps1 else ps1)"


text \<open>
  Modelled from the spec: \<open>warp.warp\<close> is not in model.py. The specification has the time
  factors "warped independently per trial (each trial's canonical time-factor matrix is
  mapped through that trial's own warp)": on a stack of matrices paired with the rows of
  the warp tensor, the operator maps each matrix through its own row by \<open>f\<close>.
\<close>

definition warps_per_trial ::
  "('w, 'o) collab \<Rightarrow> (matrix \<Rightarrow> real list \<Rightarrow> matrix) \<Rightarrow> bool" where
  "warps_per_trial env f \<longleftrightarrow>
     (\<forall>pairs. warp env (map fst pairs) (map snd pairs) = map (\<lambda>(a, wi). f a wi) pairs)"

text \<open>
  A fourth input, as a float64 array holds it: one trial whose three timesteps hold a number
  between two neighbours of the 32-bit format, a number beyond the range of the format and
  an infinity.
\<close>

definition example_X4 :: "npfloat tensor" where
  "example_X4 = [[[Finite (1 + 1 / 2 ^ 30)], [Finite (2 ^ 130)], [PInf]]]"

text \<open>
  Following the words of the specification for the stored data: the input "with every NaN
  entry replaced by zero", every other entry unchanged.
\<close>

definition nan_zeroed :: "npfloat tensor \<Rightarrow> npfloat tensor" where
  "nan_zeroed X = map3 (\<lambda>x. if x = NaN then Finite 0 else x) X"


section \<open>Properties\<close>

subsection \<open>Training changes the session and the history only\<close>

lemma train_only_sess_history:
  "train n l m = (r, m') \<Longrightarrow> m' = m\<lparr>sess := sess m', obj_history := obj_history m'\<rparr>"
  unfolding train_def
  by (auto split: option.splits if_splits prod.splits)

lemma run_steps_iterate:
  "run_steps obj step k v = (map (\<lambda>i. obj ((step ^^ i) v)) [0..<k], (step ^^ k) v)"
proof (induction k arbitrary: v)
  case 0
  then show ?case by simp
next
  case (Suc k)
  have "map (\<lambda>i. obj ((step ^^ i) v)) [0..<Suc k] =
        obj v # map (\<lambda>i. obj ((step ^^ i) (step v))) [0..<k]"
    by (simp add: upt_conv_Cons map_Suc_upt[symmetric] funpow_swap1 del: upt_Suc)
  then show ?case using Suc.IH[of "step v"] by (simp add: funpow_swap1 del: upt_Suc)
qed

lemma train_fitted:
  assumes "objective m = Some obj" "train_op m = Some tr" "sess m = Some v"
    "obj_history m = Some h"
  shows "train niter lr m =
           (None, m\<lparr>sess := Some ((tr lr ^^ nat niter) v),
                     obj_history :=
                       Some (h @ map (\<lambda>i. obj ((tr lr ^^ i) v)) [0..<nat niter])\<rparr>)"
  using assms unfolding train_def by (simp add: run_steps_iterate)

lemma train_phases_fitted:
  assumes "objective m = Some obj" "train_op m = Some tr" "sess m = Some v"
    "obj_history m = Some h"
  shows "\<exists>v' vals.
           train_phases ps m = (None, m\<lparr>sess := Some v', obj_history := Some (h @ vals)\<rparr>)
           \<and> length vals = sum_list (map (\<lambda>(n, l). nat n) ps)"
  using assms
proof (induction ps arbitrary: m v h)
  case Nil
  have "m = m\<lparr>sess := Some v, obj_history := Some (h @ [])\<rparr>" using Nil by simp
  then show ?case by (metis train_phases.simps(1) list.size(3) list.simps(8) sum_list.Nil)
next
  case (Cons p ps)
  obtain n l where p: "p = (n, l)" by (cases p)
  let ?v1 = "(tr l ^^ nat n) v"
  let ?vals1 = "map (\<lambda>i. obj ((tr l ^^ i) v)) [0..<nat n]"
  let ?m1 = "m\<lparr>sess := Some ?v1, obj_history := Some (h @ ?vals1)\<rparr>"
  have t: "train n l m = (None, ?m1)" using train_fitted[OF Cons.prems] .
  have "\<exists>v' vals.
          train_phases ps ?m1 =
            (None, ?m1\<lparr>sess := Some v', obj_history := Some ((h @ ?vals1) @ vals)\<rparr>)
          \<and> length vals = sum_list (map (\<lambda>(n, l). nat n) ps)"
    by (rule Cons.IH) (use Cons.prems in simp_all)
  then obtain v' vals where
    r: "train_phases ps ?m1 =
          (None, ?m1\<lparr>sess := Some v', obj_history := Some ((h @ ?vals1) @ vals)\<rparr>)"
    and len: "length vals = sum_list (map (\<lambda>(n, l). nat n) ps)" by blast
  have "train_phases (p # ps) m =
          (None, m\<lparr>sess := Some v', obj_history := Some (h @ (?vals1 @ vals))\<rparr>)"
    using t r p by simp
  moreover have "length (?vals1 @ vals) = sum_list (map (\<lambda>(n, l). nat n) (p # ps))"
    using len p by simp
  ultimately show ?case by blast
qed

subsection \<open>What a call of \<open>fit\<close> that returns has done\<close>

lemma shape3_map3: "shape3 (map3 f X) = shape3 X"
  by (simp add: shape3_def map3_def split: list.splits)

lemma fit_success:
  assumes "fit env X niter lr m = (None, m')"
  shows "\<exists>ns ls rs w inits.
           schedule niter lr = Inr (ns, ls) \<and>
           rev_last_idx (map3 isfinite X) = Inr rs \<and>
           train_phases (zip ns ls) (fit_built env X rs w inits m) = (None, m')"
  using assms unfolding fit_def fit_prepared_def fit_built_def
  by (auto simp: Let_def shape3_map3 split: sum.splits prod.splits)

lemma fit_built_fields:
  "objective (fit_built env X rs w inits m) \<noteq> None"
  "train_op (fit_built env X rs w inits m) \<noteq> None"
  "sess (fit_built env X rs w inits m) \<noteq> None"
  "obj_history (fit_built env X rs w inits m) = Some []"
  unfolding fit_built_def fit_graph_def
  by (simp_all add: Let_def split: prod.splits)

lemma train_phases_fit_built:
  "\<exists>v' vals. train_phases ps (fit_built env X rs w inits m) =
       (None, (fit_built env X rs w inits m)\<lparr>sess := Some v', obj_history := Some vals\<rparr>)
     \<and> length vals = sum_list (map (\<lambda>(n, l). nat n) ps)"
proof -
  let ?b = "fit_built env X rs w inits m"
  obtain obj tr v where f: "objective ?b = Some obj" "train_op ?b = Some tr" "sess ?b = Some v"
    using fit_built_fields(1-3)[of env X rs w inits m] by auto
  from train_phases_fitted[OF f fit_built_fields(4), of ps] show ?thesis by simp
qed

text \<open>When the schedule is well formed, no row of the mask is empty and the collaborators
  return, \<open>fit\<close> is the training of the object built.\<close>

lemma fit_total:
  assumes "schedule niter lr = Inr (ns, ls)"
    and "rev_last_idx (map3 isfinite X) = Inr rs"
    and "generate_warps env (fst (shape3 X)) (fst (snd (shape3 X)))
           (case shared_length m of None \<Rightarrow> fst (snd (shape3 X)) | Some s \<Rightarrow> s)
           (map3 astype_float32 X) (last_idx_of (fst (snd (shape3 X))) rs) = Inr w"
    and "compute_lowrank_factors env (map3 astype_float32 X) (n_components m)
           (fit_trial_factors m) (nonneg m)
           (last_idx_of (fst (snd (shape3 X))) rs) = Inr inits"
  shows "fit env X niter lr m = train_phases (zip ns ls) (fit_built env X rs w inits m)"
  using assms unfolding fit_def fit_prepared_def fit_built_def
  by (simp add: Let_def shape3_map3)

lemma fit_result:
  assumes "fit env X niter lr m = (None, m')"
  shows "\<exists>ns ls rs w inits v' vals.
           schedule niter lr = Inr (ns, ls) \<and>
           rev_last_idx (map3 isfinite X) = Inr rs \<and>
           m' = (fit_built env X rs w inits m)\<lparr>sess := Some v', obj_history := Some vals\<rparr> \<and>
           length vals = sum_list (map (\<lambda>(n, l). nat n) (zip ns ls))"
proof -
  from fit_success[OF assms] obtain ns ls rs w inits where
    s: "schedule niter lr = Inr (ns, ls)" and r: "rev_last_idx (map3 isfinite X) = Inr rs"
    and t: "train_phases (zip ns ls) (fit_built env X rs w inits m) = (None, m')" by blast
  from train_phases_fit_built[of "zip ns ls" env X rs w inits m] t
  obtain v' vals where
    "m' = (fit_built env X rs w inits m)\<lparr>sess := Some v', obj_history := Some vals\<rparr>"
    "length vals = sum_list (map (\<lambda>(n, l). nat n) (zip ns ls))" by auto
  with s r show ?thesis by blast
qed

lemma fit_fitted: "fit env X niter lr m = (None, m') \<Longrightarrow> sess m' \<noteq> None"
  using fit_result[of env X niter lr m m'] by auto

subsection \<open>The example runs\<close>

lemma example_rev_last_idx: "rev_last_idx (map3 isfinite example_X) = Inr [1]"
  by (simp add: rev_last_idx_def all_last_axis_def map3_def example_X_def)

lemma example_fit:
  "fit example_collab example_X (Scalar 2) (Scalar (1/10)) (example_model nn ftf) =
     train_phases [(2, 1/10)]
       (fit_built example_collab example_X [1] () ([[2]], [[1], [2]], [[3]])
          (example_model nn ftf))"
  using fit_total[of "Scalar 2" "Scalar (1/10)" "[2]" "[1/10]" example_X "[1]" example_collab
      "example_model nn ftf" "()" "([[2]], [[1], [2]], [[3]])"]
  by (simp add: example_rev_last_idx example_collab_def)

lemma example_fit_ok:
  "fst (fit example_collab example_X (Scalar 2) (Scalar (1/10)) (example_model nn ftf)) = None"
  using train_phases_fit_built[of "[(2, 1/10)]" example_collab example_X "[1]" "()"
          "([[2]], [[1], [2]], [[3]])" "example_model nn ftf"]
  by (auto simp: example_fit)

lemma example_fit_returns:
  "fit example_collab example_X (Scalar 2) (Scalar (1/10)) (example_model nn ftf) =
     (None, snd (fit example_collab example_X (Scalar 2) (Scalar (1/10)) (example_model nn ftf)))"
  using example_fit_ok[of nn ftf] by (simp add: prod_eq_iff)

subsection \<open>The schedule of \<open>fit\<close>\<close>

text \<open>
  C4. When one of \<open>niter\<close> and \<open>lr\<close> is a number and the other an iterable, or both are
  iterables of different lengths, \<open>fit\<close> raises a \<open>ValueError\<close> (the configuration error of
  the specification) before anything is built or trained: the history, the session with
  the variables and the parameter nodes are those of the object before the call, and no
  attribute other than \<open>shared_length\<close> has changed.
\<close>

theorem fit_schedule_mismatch:
  assumes "(\<exists>n ls. niter = Scalar n \<and> lr = Iterable ls)
         \<or> (\<exists>ns l. niter = Iterable ns \<and> lr = Scalar l)
         \<or> (\<exists>ns ls. niter = Iterable ns \<and> lr = Iterable ls \<and> length ns \<noteq> length ls)"
  shows "\<exists>msg m'. fit env X niter lr m = (Some (ValueError msg), m')
           \<and> obj_history m' = obj_history m \<and> sess m' = sess m \<and> params m' = params m
           \<and> m' = m\<lparr>shared_length := shared_length m'\<rparr>"
  using assms unfolding fit_def by (auto simp: Let_def)

theorem fit_schedule_mismatch_witness:
  "((\<exists>n ls. (Iterable [1, 2] :: int numarg) = Scalar n \<and> (Iterable [1/10] :: real numarg) = Iterable ls)
    \<or> (\<exists>ns l. (Iterable [1, 2] :: int numarg) = Iterable ns \<and> (Iterable [1/10] :: real numarg) = Scalar l)
    \<or> (\<exists>ns ls. (Iterable [1, 2] :: int numarg) = Iterable ns
          \<and> (Iterable [1/10] :: real numarg) = Iterable ls \<and> length ns \<noteq> length ls))
   \<and> (\<exists>msg m'. fit example_collab example_X (Iterable [1, 2]) (Iterable [1/10])
                  (example_model False False) = (Some (ValueError msg), m')
           \<and> obj_history m' = obj_history (example_model False False)
           \<and> sess m' = sess (example_model False False)
           \<and> params m' = params (example_model False False)
           \<and> m' = (example_model False False)\<lparr>shared_length := shared_length m'\<rparr>)"
  using fit_schedule_mismatch[of "Iterable [1, 2]" "Iterable [1/10]" example_collab example_X
      "example_model False False"]
  by simp

subsection \<open>\<open>predict\<close> on an argument that is neither \<open>None\<close> nor an array\<close>

text \<open>
  C10. On a fitted object (its session is set), \<open>predict\<close> called with an argument that is
  neither \<open>None\<close> nor a numpy array, a TensorFlow tensor for one, assigns \<open>X_pred\<close> on no
  branch and fails with an \<open>UnboundLocalError\<close> at the \<open>return\<close>.
\<close>

theorem predict_unassigned:
  assumes "sess m \<noteq> None" and "X \<noteq> PyNone" and "\<forall>A. X \<noteq> Ndarray A"
  shows "predict env m X = Inl (UnboundLocalError ''X_pred'')"
  using assms unfolding predict_def by (cases X) (auto split: option.splits)

theorem predict_unassigned_witness:
  "sess (snd (fit example_collab example_X (Scalar 2) (Scalar (1/10)) (example_model False False)))
     \<noteq> None
   \<and> TfTensor example_X \<noteq> PyNone \<and> (\<forall>A. TfTensor example_X \<noteq> Ndarray A)
   \<and> predict example_collab
       (snd (fit example_collab example_X (Scalar 2) (Scalar (1/10)) (example_model False False)))
       (TfTensor example_X) = Inl (UnboundLocalError ''X_pred'')"
proof -
  let ?m = "snd (fit example_collab example_X (Scalar 2) (Scalar (1/10))
                  (example_model False False))"
  have s: "sess ?m \<noteq> None" using example_fit_returns[of False False] by (rule fit_fitted)
  show ?thesis
    using s predict_unassigned[of ?m "TfTensor example_X" example_collab] by simp
qed

subsection \<open>The objective history\<close>

lemma schedule_lengths: "schedule nit lrs = Inr (ns, ls) \<Longrightarrow> length ns = length ls"
  by (cases nit; cases lrs) (auto split: if_splits)

lemma sum_nat_phases:
  "length ns = length ls \<Longrightarrow> sum_list (map (\<lambda>(n, l). nat n) (zip ns ls)) = sum_list (map nat ns)"
proof -
  assume a: "length ns = length ls"
  have "map (\<lambda>(n, l). nat n) (zip ns ls) = map nat (map fst (zip ns ls))"
    by (simp add: case_prod_unfold)
  also have "\<dots> = map nat ns" using a by simp
  finally show ?thesis by simp
qed

lemma int_sum_nat: "\<forall>n\<in>set ns. 0 \<le> n \<Longrightarrow> int (sum_list (map nat ns)) = sum_list ns"
  by (induction ns) auto

lemma fit_fitted_all:
  assumes "fit env X niter lr m = (None, m')"
  shows "objective m' \<noteq> None" "train_op m' \<noteq> None" "sess m' \<noteq> None" "obj_history m' \<noteq> None"
  using fit_result[OF assms] fit_built_fields by auto

text \<open>
  C5. Training only ever extends the history. On a fitted object a call \<open>train(niter, lr)\<close>
  returns and appends \<open>niter\<close> values behind the entries already there (none when
  \<open>niter\<close> is negative): the objective before each of the \<open>niter\<close> runs of the training
  operation. A sequence of such calls appends the values of all of them. After a call of
  \<open>fit\<close> that returns, the history holds as many values as the iteration counts of the
  phases add up to.
\<close>

theorem obj_history_append_only:
  fixes m :: "('w, 'o) twpca"
  assumes "objective m \<noteq> None" and "train_op m \<noteq> None" and "sess m \<noteq> None"
    and "obj_history m \<noteq> None"
  shows "(\<exists>obj tr v h vals m1.
            objective m = Some obj \<and> train_op m = Some tr \<and> sess m = Some v \<and>
            obj_history m = Some h \<and> train niter lr m = (None, m1) \<and>
            obj_history m1 = Some (h @ vals) \<and>
            vals = map (\<lambda>i. obj ((tr lr ^^ i) v)) [0..<nat niter] \<and>
            sess m1 = Some ((tr lr ^^ nat niter) v) \<and>
            length vals = nat niter \<and> (0 \<le> niter \<longrightarrow> int (length vals) = niter))
       \<and> (\<exists>h vals m3.
            obj_history m = Some h \<and> train_phases calls m = (None, m3) \<and>
            obj_history m3 = Some (h @ vals) \<and>
            length vals = sum_list (map (\<lambda>(n, l). nat n) calls))
       \<and> (\<forall>(env :: ('w, 'o) collab) X nit lrs m0 m2 ns ls.
            fit env X nit lrs m0 = (None, m2) \<longrightarrow> schedule nit lrs = Inr (ns, ls) \<longrightarrow>
            (\<exists>h2. obj_history m2 = Some h2 \<and> length h2 = sum_list (map nat ns) \<and>
                  ((\<forall>n\<in>set ns. 0 \<le> n) \<longrightarrow> int (length h2) = sum_list ns)))"
proof (intro conjI allI impI)
  from assms obtain obj tr v h where
    f: "objective m = Some obj" "train_op m = Some tr" "sess m = Some v" "obj_history m = Some h"
    by auto
  show "\<exists>obj tr v h vals m1.
            objective m = Some obj \<and> train_op m = Some tr \<and> sess m = Some v \<and>
            obj_history m = Some h \<and> train niter lr m = (None, m1) \<and>
            obj_history m1 = Some (h @ vals) \<and>
            vals = map (\<lambda>i. obj ((tr lr ^^ i) v)) [0..<nat niter] \<and>
            sess m1 = Some ((tr lr ^^ nat niter) v) \<and>
            length vals = nat niter \<and> (0 \<le> niter \<longrightarrow> int (length vals) = niter)"
    using f train_fitted[OF f, of niter lr] by simp
  show "\<exists>h vals m3.
            obj_history m = Some h \<and> train_phases calls m = (None, m3) \<and>
            obj_history m3 = Some (h @ vals) \<and>
            length vals = sum_list (map (\<lambda>(n, l). nat n) calls)"
    using f train_phases_fitted[OF f, of calls] by auto
next
  fix env :: "('w, 'o) collab" and X nit lrs and m0 m2 :: "('w, 'o) twpca" and ns ls
  assume a: "fit env X nit lrs m0 = (None, m2)" and s: "schedule nit lrs = Inr (ns, ls)"
  from fit_result[OF a] s obtain vals where
    h: "obj_history m2 = Some vals"
    and l: "length vals = sum_list (map (\<lambda>(n, l). nat n) (zip ns ls))" by auto
  have l2: "length vals = sum_list (map nat ns)"
    using l sum_nat_phases[OF schedule_lengths[OF s]] by simp
  show "\<exists>h2. obj_history m2 = Some h2 \<and> length h2 = sum_list (map nat ns) \<and>
                  ((\<forall>n\<in>set ns. 0 \<le> n) \<longrightarrow> int (length h2) = sum_list ns)"
    using h l2 int_sum_nat[of ns] by auto
qed

theorem obj_history_append_only_witness:
  "objective (snd (fit example_collab example_X (Scalar 2) (Scalar (1/10)) (example_model False False))) \<noteq> None
   \<and> train_op (snd (fit example_collab example_X (Scalar 2) (Scalar (1/10)) (example_model False False))) \<noteq> None
   \<and> sess (snd (fit example_collab example_X (Scalar 2) (Scalar (1/10)) (example_model False False))) \<noteq> None
   \<and> obj_history (snd (fit example_collab example_X (Scalar 2) (Scalar (1/10)) (example_model False False))) \<noteq> None
   \<and> (\<exists>h vals m1.
        obj_history (snd (fit example_collab example_X (Scalar 2) (Scalar (1/10)) (example_model False False))) = Some h \<and>
        train 3 (1/20) (snd (fit example_collab example_X (Scalar 2) (Scalar (1/10)) (example_model False False))) = (None, m1) \<and>
        obj_history m1 = Some (h @ vals) \<and> length vals = 3 \<and> length h = 2)
   \<and> (\<exists>h vals m3.
        obj_history (snd (fit example_collab example_X (Scalar 2) (Scalar (1/10)) (example_model False False))) = Some h \<and>
        train_phases [(1, 1/10), (2, 1/20)]
          (snd (fit example_collab example_X (Scalar 2) (Scalar (1/10)) (example_model False False))) = (None, m3) \<and>
        obj_history m3 = Some (h @ vals) \<and> length vals = 3)"
proof -
  let ?m = "snd (fit example_collab example_X (Scalar 2) (Scalar (1/10)) (example_model False False))"
  note r = example_fit_returns[of False False]
  note f = fit_fitted_all[OF r]
  note t = obj_history_append_only[OF f, of 3 "1/20" "[(1, 1/10), (2, 1/20)]"]
  have s: "schedule (Scalar 2) (Scalar (1/10)) = Inr ([2], [1/10])" by simp
  from t r s have "\<exists>h2. obj_history ?m = Some h2 \<and> length h2 = sum_list (map nat [2])"
    by blast
  then obtain h2 where h2: "obj_history ?m = Some h2" "length h2 = 2" by auto
  show ?thesis using f t h2 by auto
qed

subsection \<open>The mask, the stored data and the last valid index\<close>

lemma fit_built_data:
  "X_data (fit_built env X rs w inits m) = Some (map3 nan_to_num (map3 astype_float32 X))"
  "mask (fit_built env X rs w inits m) = Some (map3 bool_to_float (map3 isfinite X))"
  "num_datapoints (fit_built env X rs w inits m) = Some (np_sum_bool (map3 isfinite X))"
  "last_idx (fit_built env X rs w inits m) = Some (last_idx_of (fst (snd (shape3 X))) rs)"
  unfolding fit_built_def fit_graph_def fit_prepared_def
  by (simp_all add: Let_def split: prod.splits)

text \<open>\<open>argmax\<close> of a row of booleans is the first position that holds \<open>True\<close>, or
  \<open>0\<close> when there is none.\<close>

lemma argmax_scan_True: "argmax_scan True bi i xs = bi"
  by (induction xs arbitrary: i) auto

lemma ex_true_Cons_False:
  assumes "\<not> x"
  shows "(\<exists>k<length (x # xs). (x # xs) ! k) \<longleftrightarrow> (\<exists>k<length xs. xs ! k)"
proof
  assume "\<exists>k<length (x # xs). (x # xs) ! k"
  then obtain k where k: "k < length (x # xs)" "(x # xs) ! k" by blast
  with assms obtain k' where "k = Suc k'" by (cases k) auto
  with k show "\<exists>k<length xs. xs ! k" by auto
next
  assume "\<exists>k<length xs. xs ! k"
  then obtain k where "k < length xs" "xs ! k" by blast
  then have "Suc k < length (x # xs) \<and> (x # xs) ! Suc k" by simp
  then show "\<exists>k<length (x # xs). (x # xs) ! k" by blast
qed

lemma first_true_Cons_True:
  "x \<Longrightarrow> (LEAST k. k < length (x # xs) \<and> (x # xs) ! k) = 0"
  by (intro Least_equality) auto

lemma first_true_Cons_False:
  assumes "\<not> x" and "\<exists>k<length xs. xs ! k"
  shows "(LEAST k. k < length (x # xs) \<and> (x # xs) ! k) =
         Suc (LEAST k. k < length xs \<and> xs ! k)"
proof -
  from assms(2) obtain k where k: "k < length xs" "xs ! k" by blast
  have "(LEAST k. k < length (x # xs) \<and> (x # xs) ! k) =
        Suc (LEAST k. Suc k < length (x # xs) \<and> (x # xs) ! Suc k)"
    by (rule Least_Suc[where n = "Suc k"]) (use k assms(1) in auto)
  then show ?thesis by simp
qed

lemma argmax_scan_False:
  "argmax_scan False bi i xs =
     (if \<exists>k<length xs. xs ! k then i + (LEAST k. k < length xs \<and> xs ! k) else bi)"
proof (induction xs arbitrary: bi i)
  case Nil
  then show ?case by simp
next
  case (Cons x xs)
  show ?case
  proof (cases x)
    case True
    then have "\<exists>k<length (x # xs). (x # xs) ! k" by auto
    then show ?thesis
      using True first_true_Cons_True[of x xs] by (simp add: argmax_scan_True)
  next
    case False
    note ex = ex_true_Cons_False[OF False, of xs]
    show ?thesis
    proof (cases "\<exists>k<length xs. xs ! k")
      case ex': True
      then show ?thesis
        using False ex first_true_Cons_False[OF False ex'] Cons.IH[of bi "Suc i"] by simp
    next
      case ex': False
      then show ?thesis using False ex Cons.IH[of bi "Suc i"] by auto
    qed
  qed
qed

lemma argmax_eq:
  assumes "bs \<noteq> []"
  shows "argmax bs =
           Inr (if \<exists>k<length bs. bs ! k then (LEAST k. k < length bs \<and> bs ! k) else 0)"
proof -
  from assms obtain x xs where bs: "bs = x # xs" by (cases bs) auto
  show ?thesis
  proof (cases x)
    case True
    then have "\<exists>k<length (x # xs). (x # xs) ! k" by auto
    then show ?thesis
      using True bs first_true_Cons_True[of x xs] by (simp add: argmax_scan_True)
  next
    case False
    note ex = ex_true_Cons_False[OF False, of xs]
    show ?thesis
    proof (cases "\<exists>k<length xs. xs ! k")
      case ex': True
      then show ?thesis
        using False ex bs first_true_Cons_False[OF False ex']
        by (simp add: argmax_scan_False)
    next
      case ex': False
      then show ?thesis using False ex bs by (auto simp: argmax_scan_False)
    qed
  qed
qed

lemma argmax_axis1_nth:
  "argmax_axis1 rows = Inr rs \<Longrightarrow>
     length rs = length rows \<and> (\<forall>i<length rows. argmax (rows ! i) = Inr (rs ! i))"
proof (induction rows arbitrary: rs)
  case Nil
  then show ?case by simp
next
  case (Cons r rows)
  from Cons.prems obtain a as where
    a: "argmax r = Inr a" and as: "argmax_axis1 rows = Inr as" and rs: "rs = a # as"
    by (auto split: sum.splits)
  from Cons.IH[OF as] have ih: "length as = length rows"
    "\<forall>i<length rows. argmax (rows ! i) = Inr (as ! i)" by auto
  show ?case
  proof (intro conjI allI impI)
    show "length rs = length (r # rows)" using rs ih by simp
    fix i assume "i < length (r # rows)"
    then show "argmax ((r # rows) ! i) = Inr (rs ! i)"
      using a rs ih by (cases i) auto
  qed
qed

text \<open>Row \<open>i\<close> of \<open>np.all(np_mask, axis=-1)[:, ::-1]\<close>.\<close>

lemma reversed_valid_row:
  assumes "i < length X"
  shows "map rev (all_last_axis (map3 isfinite X)) ! i =
           map (list_all isfinite) (rev (X ! i))"
  using assms
  by (simp add: all_last_axis_def map3_def rev_map list.pred_map comp_def)

text \<open>
  C6. For an input with \<open>T\<close> timesteps and a trial \<open>i\<close>, the last valid index that \<open>fit\<close>
  stores is \<open>T\<close> minus the first position, in the time-reversed trial, of a timestep at
  which all neurons are finite; when the trial has no such timestep it is \<open>T\<close>.
\<close>

theorem fit_last_idx:
  assumes "fit env X niter lr m = (None, m')"
    and "\<forall>t\<in>set X. length t = T"
    and "i < length X"
  shows "\<exists>L. last_idx m' = Some L \<and> length L = length X \<and>
           ((\<exists>j<T. list_all isfinite (X ! i ! j)) \<longrightarrow>
              L ! i = int T - int (LEAST r. r < T \<and> list_all isfinite (rev (X ! i) ! r))) \<and>
           ((\<forall>j<T. \<not> list_all isfinite (X ! i ! j)) \<longrightarrow> L ! i = int T)"
proof -
  from fit_result[OF assms(1)] obtain rs w inits v' vals where
    r: "rev_last_idx (map3 isfinite X) = Inr rs"
    and m': "m' = (fit_built env X rs w inits m)\<lparr>sess := Some v', obj_history := Some vals\<rparr>"
    by blast
  let ?L = "last_idx_of (fst (snd (shape3 X))) rs"
  let ?bs = "map (list_all isfinite) (rev (X ! i))"
  have L: "last_idx m' = Some ?L" using m' by (simp add: fit_built_data)
  have len: "length (X ! i) = T" using assms(2,3) by simp
  from assms(3) obtain t ts where X: "X = t # ts" by (cases X) auto
  have T: "fst (snd (shape3 X)) = T" using X assms(2) by (simp add: shape3_def)
  from r have a: "argmax_axis1 (map rev (all_last_axis (map3 isfinite X))) = Inr rs"
    by (simp add: rev_last_idx_def)
  have lrows: "length (map rev (all_last_axis (map3 isfinite X))) = length X"
    by (simp add: all_last_axis_def map3_def)
  from argmax_axis1_nth[OF a] lrows assms(3) reversed_valid_row[OF assms(3)]
  have lrs: "length rs = length X" and ai: "argmax ?bs = Inr (rs ! i)" by auto
  have ne: "?bs \<noteq> []"
  proof
    assume "?bs = []"
    then show False using ai by simp
  qed
  have lbs: "length ?bs = T" using len by simp
  have nth: "\<And>k. k < T \<Longrightarrow> ?bs ! k = list_all isfinite (rev (X ! i) ! k)"
    using len by simp
  have ex: "(\<exists>k<length ?bs. ?bs ! k) \<longleftrightarrow> (\<exists>j<T. list_all isfinite (X ! i ! j))"
  proof
    assume "\<exists>k<length ?bs. ?bs ! k"
    then obtain k where k: "k < T" "list_all isfinite (rev (X ! i) ! k)"
      using lbs nth by auto
    then have "T - Suc k < T \<and> list_all isfinite (X ! i ! (T - Suc k))"
      using len by (simp add: rev_nth)
    then show "\<exists>j<T. list_all isfinite (X ! i ! j)" by blast
  next
    assume "\<exists>j<T. list_all isfinite (X ! i ! j)"
    then obtain j where j: "j < T" "list_all isfinite (X ! i ! j)" by blast
    then have "T - Suc j < T" "rev (X ! i) ! (T - Suc j) = X ! i ! j"
      using len by (auto simp: rev_nth)
    then have "T - Suc j < length ?bs \<and> ?bs ! (T - Suc j)" using j lbs nth by auto
    then show "\<exists>k<length ?bs. ?bs ! k" by blast
  qed
  have least: "(LEAST k. k < length ?bs \<and> ?bs ! k) =
               (LEAST r. r < T \<and> list_all isfinite (rev (X ! i) ! r))"
  proof -
    have "(\<lambda>k. k < length ?bs \<and> ?bs ! k) = (\<lambda>r. r < T \<and> list_all isfinite (rev (X ! i) ! r))"
      using lbs nth by (intro ext) auto
    then show ?thesis by simp
  qed
  have ri: "rs ! i = (if \<exists>j<T. list_all isfinite (X ! i ! j)
                      then (LEAST r. r < T \<and> list_all isfinite (rev (X ! i) ! r)) else 0)"
  proof -
    have "Inr (rs ! i) =
          (Inr (if \<exists>k<length ?bs. ?bs ! k then (LEAST k. k < length ?bs \<and> ?bs ! k) else 0)
             :: error + nat)"
      using ai argmax_eq[OF ne] by (simp only:)
    then have "rs ! i =
          (if \<exists>k<length ?bs. ?bs ! k then (LEAST k. k < length ?bs \<and> ?bs ! k) else 0)"
      by (simp only: sum.inject)
    then show ?thesis by (simp only: ex least)
  qed
  have Li: "?L ! i = int T - int (rs ! i)"
    using lrs assms(3) T by (simp add: last_idx_of_def)
  show ?thesis
  proof (intro exI conjI impI)
    show "last_idx m' = Some ?L" by (rule L)
    show "length ?L = length X" using lrs by (simp add: last_idx_of_def)
    show "?L ! i = int T - int (LEAST r. r < T \<and> list_all isfinite (rev (X ! i) ! r))"
      if "\<exists>j<T. list_all isfinite (X ! i ! j)"
      using that Li ri by simp
    show "?L ! i = int T" if "\<forall>j<T. \<not> list_all isfinite (X ! i ! j)"
      using that Li ri by auto
  qed
qed

text \<open>On an input whose trials have no timestep the argmax of line 107 raises, and \<open>fit\<close>
  with it, once the data and the mask are stored.\<close>

lemma fit_no_timesteps:
  assumes "schedule niter lr = Inr (ns, ls)"
  shows "\<exists>msg m'. fit env ([] # ts) niter lr m = (Some (ValueError msg), m') \<and>
           last_idx m' = last_idx m \<and> sess m' = sess m \<and> obj_history m' = obj_history m"
  using assms unfolding fit_def
  by (simp add: Let_def rev_last_idx_def all_last_axis_def map3_def)

lemma example2_rev_last_idx: "rev_last_idx (map3 isfinite example_X2) = Inr [1, 0]"
  by (simp add: rev_last_idx_def all_last_axis_def map3_def example_X2_def)

lemma example2_fit:
  "fit example_collab example_X2 (Scalar 2) (Scalar (1/10)) (example_model nn ftf) =
     train_phases [(2, 1/10)]
       (fit_built example_collab example_X2 [1, 0] () ([[2]], [[1], [2]], [[3]])
          (example_model nn ftf))"
  using fit_total[of "Scalar 2" "Scalar (1/10)" "[2]" "[1/10]" example_X2 "[1, 0]"
      example_collab "example_model nn ftf" "()" "([[2]], [[1], [2]], [[3]])"]
  by (simp add: example2_rev_last_idx example_collab_def)

lemma example2_fit_returns:
  "fit example_collab example_X2 (Scalar 2) (Scalar (1/10)) (example_model nn ftf) =
     (None, snd (fit example_collab example_X2 (Scalar 2) (Scalar (1/10)) (example_model nn ftf)))"
  using train_phases_fit_built[of "[(2, 1/10)]" example_collab example_X2 "[1, 0]" "()"
          "([[2]], [[1], [2]], [[3]])" "example_model nn ftf"]
  by (auto simp: example2_fit)

lemma example2_last_idx:
  "last_idx (snd (fit example_collab example_X2 (Scalar 2) (Scalar (1/10)) (example_model nn ftf)))
     = Some [1, 2]"
proof -
  from fit_result[OF example2_fit_returns[of nn ftf]] obtain rs w inits v' vals where
    r: "rev_last_idx (map3 isfinite example_X2) = Inr rs"
    and m': "snd (fit example_collab example_X2 (Scalar 2) (Scalar (1/10)) (example_model nn ftf))
             = (fit_built example_collab example_X2 rs w inits (example_model nn ftf))
                 \<lparr>sess := Some v', obj_history := Some vals\<rparr>"
    by blast
  from r have "rs = [1, 0]" by (simp add: example2_rev_last_idx)
  then show ?thesis
    unfolding m' by (simp add: fit_built_data last_idx_of_def shape3_def example_X2_def)
qed

theorem fit_last_idx_witness:
  "fit example_collab example_X2 (Scalar 2) (Scalar (1/10)) (example_model False False) =
     (None, snd (fit example_collab example_X2 (Scalar 2) (Scalar (1/10)) (example_model False False)))
   \<and> map length example_X2 = [2, 2]
   \<and> list_all isfinite (example_X2 ! 0 ! 0)
   \<and> \<not> list_all isfinite (example_X2 ! 1 ! 0) \<and> \<not> list_all isfinite (example_X2 ! 1 ! 1)
   \<and> (\<exists>L. last_idx (snd (fit example_collab example_X2 (Scalar 2) (Scalar (1/10))
                             (example_model False False))) = Some L
          \<and> length L = length example_X2
          \<and> L ! 0 = int 2 - int (LEAST r. r < 2 \<and> list_all isfinite (rev (example_X2 ! 0) ! r))
          \<and> L ! 1 = int 2)"
proof -
  let ?m = "snd (fit example_collab example_X2 (Scalar 2) (Scalar (1/10)) (example_model False False))"
  note r = example2_fit_returns[of False False]
  have t: "\<forall>t\<in>set example_X2. length t = 2" by (simp add: example_X2_def)
  have l: "0 < length example_X2" "1 < length example_X2" by (simp_all add: example_X2_def)
  have v0: "\<exists>j<2. list_all isfinite (example_X2 ! 0 ! j)"
    by (rule exI[of _ 0]) (simp add: example_X2_def)
  have v1: "\<forall>j<2. \<not> list_all isfinite (example_X2 ! 1 ! j)"
    by (simp add: example_X2_def less_Suc_eq numeral_2_eq_2)
  from fit_last_idx[OF r t l(1)] fit_last_idx[OF r t l(2)] v0 v1
  have "\<exists>L. last_idx ?m = Some L \<and> length L = length example_X2
          \<and> L ! 0 = int 2 - int (LEAST r. r < 2 \<and> list_all isfinite (rev (example_X2 ! 0) ! r))
          \<and> L ! 1 = int 2"
    by auto
  moreover have "map length example_X2 = [2, 2]" "list_all isfinite (example_X2 ! 0 ! 0)"
    "\<not> list_all isfinite (example_X2 ! 1 ! 0)" "\<not> list_all isfinite (example_X2 ! 1 ! 1)"
    by (simp_all add: example_X2_def)
  ultimately show ?thesis using r by (intro conjI)
qed

subsection \<open>The prediction\<close>

lemma shape3_trials: "fst (shape3 X) = length X"
  by (simp add: shape3_def)

lemma fit_built_graph:
  "warped_time_factors (fit_built env X rs w inits m) =
     Some (warped_node env (length X) (factor_node (nonneg m) time_factors)
             (warp_param_node env))"
  "X_pred (fit_built env X rs w inits m) =
     Some (X_pred_node (fit_trial_factors m) (factor_node (nonneg m) trial_factors)
             (warped_node env (length X) (factor_node (nonneg m) time_factors)
                (warp_param_node env))
             (factor_node (nonneg m) neuron_factors))"
  unfolding fit_built_def fit_graph_def fit_prepared_def
  by (simp_all add: Let_def shape3_trials split: prod.splits)

lemma sum_list_map_nth: "sum_list (map f xs) = (\<Sum>i<length xs. f (xs ! i))"
proof -
  have "sum_list (map f xs) = (\<Sum>i = 0..<length (map f xs). map f xs ! i)"
    by (rule sum_list_sum_nth)
  also have "\<dots> = (\<Sum>i<length xs. f (xs ! i))"
    by (simp add: atLeast0LessThan)
  finally show ?thesis .
qed

lemma dot2_sum:
  assumes "length a = K" and "length b = K"
  shows "dot2 a b = (\<Sum>k<K. a ! k * b ! k)"
  using assms unfolding dot2_def by (simp add: sum_list_map_nth)

lemma dot3_sum:
  assumes "length a = K" and "length b = K" and "length c = K"
  shows "dot3 a b c = (\<Sum>k<K. a ! k * b ! k * c ! k)"
  using assms unfolding dot3_def by (simp add: sum_list_map_nth)

lemma einsum_ijk_nk_nth:
  assumes "i < length W" and "j < length (W ! i)" and "n < length N"
  shows "einsum_ijk_nk W N ! i ! j ! n = dot2 (W ! i ! j) (N ! n)"
  using assms unfolding einsum_ijk_nk_def by simp

lemma einsum_ik_ijk_nk_nth:
  assumes "i < length T" and "i < length W" and "j < length (W ! i)" and "n < length N"
  shows "einsum_ik_ijk_nk T W N ! i ! j ! n = dot3 (T ! i) (W ! i ! j) (N ! n)"
  using assms unfolding einsum_ik_ijk_nk_def by simp

lemma rectifier_shape:
  "length (rectifier nn A) = length A"
  "n < length A \<Longrightarrow> length (rectifier nn A ! n) = length (A ! n)"
  by (simp_all add: rectifier_def)

text \<open>
  C2. After \<open>fit\<close>, at any values \<open>v\<close> of the variables, the warped time factors \<open>W\<close> are
  the effective time factors, one copy for each trial, sent through the warps, and the
  entry \<open>(i, j, n)\<close> of the prediction is the sum over the components \<open>k\<close> of
  \<open>W[i,j,k] * N[n,k]\<close> without trial factors and of \<open>Tr[i,k] * W[i,j,k] * N[n,k]\<close> with
  them, for the effective neuron factors \<open>N\<close> and trial factors \<open>Tr\<close>. When \<open>warp.warp\<close>
  maps each trial through its own warp, as the specification has it, \<open>W[i]\<close> is the
  effective time factor matrix mapped through the warp of trial \<open>i\<close>.
\<close>

theorem fit_prediction_entries:
  assumes "fit env X niter lr m = (None, m')"
  shows "\<exists>wtf xp. warped_time_factors m' = Some wtf \<and> X_pred m' = Some xp \<and>
           (\<forall>v W N Tr.
              W = wtf v \<longrightarrow> N = rectifier (nonneg m) (neuron_factors v) \<longrightarrow>
              Tr = rectifier (nonneg m) (trial_factors v) \<longrightarrow>
              W = warp env (replicate (length X) (rectifier (nonneg m) (time_factors v)))
                    (warp_node env (warp_vars v)) \<and>
              (\<forall>f i.
                 warps_per_trial env f \<longrightarrow>
                 length (warp_node env (warp_vars v)) = length X \<longrightarrow> i < length X \<longrightarrow>
                 W ! i = f (rectifier (nonneg m) (time_factors v))
                           (warp_node env (warp_vars v) ! i)) \<and>
              (\<forall>i j n K.
                 i < length W \<longrightarrow> j < length (W ! i) \<longrightarrow> n < length N \<longrightarrow>
                 length (W ! i ! j) = K \<longrightarrow> length (N ! n) = K \<longrightarrow>
                 (\<not> fit_trial_factors m \<longrightarrow>
                    xp v ! i ! j ! n = (\<Sum>k<K. W ! i ! j ! k * N ! n ! k)) \<and>
                 (fit_trial_factors m \<longrightarrow> i < length Tr \<longrightarrow> length (Tr ! i) = K \<longrightarrow>
                    xp v ! i ! j ! n = (\<Sum>k<K. Tr ! i ! k * W ! i ! j ! k * N ! n ! k))))"
proof -
  from fit_result[OF assms] obtain rs w inits v' vals where
    m': "m' = (fit_built env X rs w inits m)\<lparr>sess := Some v', obj_history := Some vals\<rparr>"
    by blast
  let ?wtf = "warped_node env (length X) (factor_node (nonneg m) time_factors)
                (warp_param_node env)"
  let ?xp = "X_pred_node (fit_trial_factors m) (factor_node (nonneg m) trial_factors) ?wtf
               (factor_node (nonneg m) neuron_factors)"
  have a: "warped_time_factors m' = Some ?wtf" and b: "X_pred m' = Some ?xp"
    using m' by (simp_all add: fit_built_graph)
  have c: "?wtf v = warp env (replicate (length X) (rectifier (nonneg m) (time_factors v)))
                     (warp_node env (warp_vars v))" for v
    by (simp add: warped_node_def factor_node_def warp_param_node_def tile_trials_def)
  have p: "?wtf v ! i = f (rectifier (nonneg m) (time_factors v))
                          (warp_node env (warp_vars v) ! i)"
    if "warps_per_trial env f" "length (warp_node env (warp_vars v)) = length X"
      "i < length X" for v f i
  proof -
    let ?E = "rectifier (nonneg m) (time_factors v)"
    let ?Wp = "warp_node env (warp_vars v)"
    let ?pairs = "zip (replicate (length X) ?E) ?Wp"
    have z: "map fst ?pairs = replicate (length X) ?E" "map snd ?pairs = ?Wp"
      using that(2) by simp_all
    have "warp env (map fst ?pairs) (map snd ?pairs) = map (\<lambda>(a, wi). f a wi) ?pairs"
      using that(1) unfolding warps_per_trial_def by blast
    then have "?wtf v = map (\<lambda>(a, wi). f a wi) ?pairs"
      unfolding z c .
    then show ?thesis using that(2,3) by simp
  qed
  have d: "?xp v ! i ! j ! n = (\<Sum>k<K. ?wtf v ! i ! j ! k * rectifier (nonneg m) (neuron_factors v) ! n ! k)"
    if "i < length (?wtf v)" "j < length (?wtf v ! i)"
      "n < length (rectifier (nonneg m) (neuron_factors v))"
      "length (?wtf v ! i ! j) = K" "length (rectifier (nonneg m) (neuron_factors v) ! n) = K"
      "\<not> fit_trial_factors m" for v i j n K
    using that
    by (simp add: X_pred_node_def factor_node_def einsum_ijk_nk_nth dot2_sum)
  have e: "?xp v ! i ! j ! n =
             (\<Sum>k<K. rectifier (nonneg m) (trial_factors v) ! i ! k * ?wtf v ! i ! j ! k *
                      rectifier (nonneg m) (neuron_factors v) ! n ! k)"
    if "i < length (?wtf v)" "j < length (?wtf v ! i)"
      "n < length (rectifier (nonneg m) (neuron_factors v))"
      "length (?wtf v ! i ! j) = K" "length (rectifier (nonneg m) (neuron_factors v) ! n) = K"
      "fit_trial_factors m" "i < length (rectifier (nonneg m) (trial_factors v))"
      "length (rectifier (nonneg m) (trial_factors v) ! i) = K" for v i j n K
    using that
    by (simp add: X_pred_node_def factor_node_def einsum_ik_ijk_nk_nth dot3_sum)
  show ?thesis
    apply (rule exI[of _ ?wtf], rule exI[of _ ?xp])
    apply (intro conjI allI impI a b)
    subgoal for v W N Tr using c[of v] by simp
    subgoal for v W N Tr f i using p[of f v i] by simp
    subgoal for v W N Tr i j n K using d[of i v j n K] by simp
    subgoal for v W N Tr i j n K using e[of i v j n K] by simp
    done
qed

theorem fit_prediction_entries_witness:
  "fit example_collab example_X (Scalar 2) (Scalar (1/10)) (example_model False False) =
     (None, snd (fit example_collab example_X (Scalar 2) (Scalar (1/10)) (example_model False False)))
   \<and> fit example_collab example_X (Scalar 2) (Scalar (1/10)) (example_model False True) =
     (None, snd (fit example_collab example_X (Scalar 2) (Scalar (1/10)) (example_model False True)))
   \<and> warps_per_trial example_collab (\<lambda>a wi. a)
   \<and> length (warp_node example_collab (warp_vars example_vars)) = length example_X
   \<and> (\<exists>wtf xp.
        warped_time_factors (snd (fit example_collab example_X (Scalar 2) (Scalar (1/10))
                                   (example_model False False))) = Some wtf
        \<and> X_pred (snd (fit example_collab example_X (Scalar 2) (Scalar (1/10))
                         (example_model False False))) = Some xp
        \<and> wtf example_vars = [[[1], [2]]]
        \<and> wtf example_vars ! 0 =
            (\<lambda>a wi. a) (rectifier False (time_factors example_vars))
              (warp_node example_collab (warp_vars example_vars) ! 0)
        \<and> xp example_vars ! 0 ! 1 ! 0 = 6)
   \<and> (\<exists>wtf xp.
        warped_time_factors (snd (fit example_collab example_X (Scalar 2) (Scalar (1/10))
                                   (example_model False True))) = Some wtf
        \<and> X_pred (snd (fit example_collab example_X (Scalar 2) (Scalar (1/10))
                         (example_model False True))) = Some xp
        \<and> wtf example_vars = [[[1], [2]]]
        \<and> wtf example_vars ! 0 =
            (\<lambda>a wi. a) (rectifier False (time_factors example_vars))
              (warp_node example_collab (warp_vars example_vars) ! 0)
        \<and> xp example_vars ! 0 ! 1 ! 0 = 12)"
proof -
  let ?m0 = "snd (fit example_collab example_X (Scalar 2) (Scalar (1/10)) (example_model False False))"
  let ?m1 = "snd (fit example_collab example_X (Scalar 2) (Scalar (1/10)) (example_model False True))"
  note r0 = example_fit_returns[of False False]
  note r1 = example_fit_returns[of False True]
  have nn: "nonneg (example_model False False) = False" "nonneg (example_model False True) = False"
    and ftf: "fit_trial_factors (example_model False False) = False"
      "fit_trial_factors (example_model False True) = True"
    by (simp_all add: example_model_def TWPCA_init_def)
  have W: "warp example_collab
             (replicate (length example_X) (rectifier False (time_factors example_vars)))
             (warp_node example_collab (warp_vars example_vars)) = [[[1], [2]]]"
    by (simp add: example_collab_def example_X_def rectifier_def example_vars_def)
  have N: "rectifier False (neuron_factors example_vars) = [[3]]"
    and Tr: "rectifier False (trial_factors example_vars) = [[2]]"
    by (simp_all add: rectifier_def example_vars_def)
  have pt: "warps_per_trial example_collab (\<lambda>a wi. a)"
    by (simp add: warps_per_trial_def example_collab_def case_prod_unfold)
  have lw: "length (warp_node example_collab (warp_vars example_vars)) = length example_X"
    by (simp add: example_collab_def example_X_def)
  have l0: "0 < length example_X" by (simp add: example_X_def)
  from fit_prediction_entries[OF r0] obtain wtf0 xp0 where
    a0: "warped_time_factors ?m0 = Some wtf0" "X_pred ?m0 = Some xp0"
    and b0: "\<forall>v W N Tr.
              W = wtf0 v \<longrightarrow> N = rectifier (nonneg (example_model False False)) (neuron_factors v) \<longrightarrow>
              Tr = rectifier (nonneg (example_model False False)) (trial_factors v) \<longrightarrow>
              W = warp example_collab (replicate (length example_X) (rectifier (nonneg (example_model False False)) (time_factors v)))
                    (warp_node example_collab (warp_vars v)) \<and>
              (\<forall>f i.
                 warps_per_trial example_collab f \<longrightarrow>
                 length (warp_node example_collab (warp_vars v)) = length example_X \<longrightarrow> i < length example_X \<longrightarrow>
                 W ! i = f (rectifier (nonneg (example_model False False)) (time_factors v))
                           (warp_node example_collab (warp_vars v) ! i)) \<and>
              (\<forall>i j n K.
                 i < length W \<longrightarrow> j < length (W ! i) \<longrightarrow> n < length N \<longrightarrow>
                 length (W ! i ! j) = K \<longrightarrow> length (N ! n) = K \<longrightarrow>
                 (\<not> fit_trial_factors (example_model False False) \<longrightarrow>
                    xp0 v ! i ! j ! n = (\<Sum>k<K. W ! i ! j ! k * N ! n ! k)) \<and>
                 (fit_trial_factors (example_model False False) \<longrightarrow> i < length Tr \<longrightarrow> length (Tr ! i) = K \<longrightarrow>
                    xp0 v ! i ! j ! n = (\<Sum>k<K. Tr ! i ! k * W ! i ! j ! k * N ! n ! k)))"
    by (elim exE conjE) (rule that; assumption)
  note c0 = b0[rule_format, OF refl refl refl, of example_vars, unfolded nn ftf]
  have w0: "wtf0 example_vars = [[[1], [2]]]" using c0[THEN conjunct1] W by simp
  have p0: "wtf0 example_vars ! 0 =
            (\<lambda>a wi. a) (rectifier False (time_factors example_vars))
              (warp_node example_collab (warp_vars example_vars) ! 0)"
    using c0[THEN conjunct2, THEN conjunct1, rule_format, OF pt lw l0] .
  have x0: "xp0 example_vars ! 0 ! 1 ! 0 = 6"
    using c0[THEN conjunct2, THEN conjunct2, rule_format, of 0 1 0 1] unfolding w0 N by simp
  have e0: "\<exists>wtf xp. warped_time_factors ?m0 = Some wtf \<and> X_pred ?m0 = Some xp
              \<and> wtf example_vars = [[[1], [2]]]
              \<and> wtf example_vars ! 0 =
                  (\<lambda>a wi. a) (rectifier False (time_factors example_vars))
                    (warp_node example_collab (warp_vars example_vars) ! 0)
              \<and> xp example_vars ! 0 ! 1 ! 0 = 6"
    using a0 w0 p0 x0 by (intro exI conjI)
  from fit_prediction_entries[OF r1] obtain wtf1 xp1 where
    a1: "warped_time_factors ?m1 = Some wtf1" "X_pred ?m1 = Some xp1"
    and b1: "\<forall>v W N Tr.
              W = wtf1 v \<longrightarrow> N = rectifier (nonneg (example_model False True)) (neuron_factors v) \<longrightarrow>
              Tr = rectifier (nonneg (example_model False True)) (trial_factors v) \<longrightarrow>
              W = warp example_collab (replicate (length example_X) (rectifier (nonneg (example_model False True)) (time_factors v)))
                    (warp_node example_collab (warp_vars v)) \<and>
              (\<forall>f i.
                 warps_per_trial example_collab f \<longrightarrow>
                 length (warp_node example_collab (warp_vars v)) = length example_X \<longrightarrow> i < length example_X \<longrightarrow>
                 W ! i = f (rectifier (nonneg (example_model False True)) (time_factors v))
                           (warp_node example_collab (warp_vars v) ! i)) \<and>
              (\<forall>i j n K.
                 i < length W \<longrightarrow> j < length (W ! i) \<longrightarrow> n < length N \<longrightarrow>
                 length (W ! i ! j) = K \<longrightarrow> length (N ! n) = K \<longrightarrow>
                 (\<not> fit_trial_factors (example_model False True) \<longrightarrow>
                    xp1 v ! i ! j ! n = (\<Sum>k<K. W ! i ! j ! k * N ! n ! k)) \<and>
                 (fit_trial_factors (example_model False True) \<longrightarrow> i < length Tr \<longrightarrow> length (Tr ! i) = K \<longrightarrow>
                    xp1 v ! i ! j ! n = (\<Sum>k<K. Tr ! i ! k * W ! i ! j ! k * N ! n ! k)))"
    by (elim exE conjE) (rule that; assumption)
  note c1 = b1[rule_format, OF refl refl refl, of example_vars, unfolded nn ftf]
  have w1: "wtf1 example_vars = [[[1], [2]]]" using c1[THEN conjunct1] W by simp
  have p1: "wtf1 example_vars ! 0 =
            (\<lambda>a wi. a) (rectifier False (time_factors example_vars))
              (warp_node example_collab (warp_vars example_vars) ! 0)"
    using c1[THEN conjunct2, THEN conjunct1, rule_format, OF pt lw l0] .
  have x1: "xp1 example_vars ! 0 ! 1 ! 0 = 12"
    using c1[THEN conjunct2, THEN conjunct2, rule_format, of 0 1 0 1] unfolding w1 N Tr by simp
  have e1: "\<exists>wtf xp. warped_time_factors ?m1 = Some wtf \<and> X_pred ?m1 = Some xp
              \<and> wtf example_vars = [[[1], [2]]]
              \<and> wtf example_vars ! 0 =
                  (\<lambda>a wi. a) (rectifier False (time_factors example_vars))
                    (warp_node example_collab (warp_vars example_vars) ! 0)
              \<and> xp example_vars ! 0 ! 1 ! 0 = 12"
    using a1 w1 p1 x1 by (intro exI conjI)
  show ?thesis by (intro conjI r0 r1 pt lw e0 e1)
qed

subsection \<open>The effective factors\<close>

lemma softplus_nonneg: "0 \<le> softplus x"
  unfolding softplus_def by (rule ln_ge_zero) (simp add: less_imp_le)

lemma rectifier_nonneg: "\<forall>row\<in>set (rectifier True A). \<forall>x\<in>set row. 0 \<le> x"
  by (auto simp: rectifier_def softplus_nonneg)

lemma fit_built_params:
  "params (fit_built env X rs w inits m) = fit_params env m"
  "recon_cost (fit_built env X rs w inits m) =
     Some (recon_node (map3 bool_to_float (map3 isfinite X))
             (map3 nan_to_num (map3 astype_float32 X))
             (np_sum_bool (map3 isfinite X))
             (X_pred_node (fit_trial_factors m) (factor_node (nonneg m) trial_factors)
                (warped_node env (length X) (factor_node (nonneg m) time_factors)
                   (warp_param_node env))
                (factor_node (nonneg m) neuron_factors)))"
  "objective (fit_built env X rs w inits m) =
     Some (objective_node
             (recon_node (map3 bool_to_float (map3 isfinite X))
             (map3 nan_to_num (map3 astype_float32 X))
                (np_sum_bool (map3 isfinite X))
                (X_pred_node (fit_trial_factors m) (factor_node (nonneg m) trial_factors)
                   (warped_node env (length X) (factor_node (nonneg m) time_factors)
                      (warp_param_node env))
                   (factor_node (nonneg m) neuron_factors)))
             (regularization (regularizers m) (fit_params env m)))"
  unfolding fit_built_def fit_graph_def fit_prepared_def fit_params_def
  by (simp_all add: Let_def shape3_trials split: prod.splits)

lemma map_of_fit_params:
  "map_of (fit_params env m) Warp = Some (warp_param_node env)"
  "map_of (fit_params env m) Time = Some (factor_node (nonneg m) time_factors)"
  "map_of (fit_params env m) Neuron = Some (factor_node (nonneg m) neuron_factors)"
  "fit_trial_factors m \<Longrightarrow>
     map_of (fit_params env m) Trial = Some (factor_node (nonneg m) trial_factors)"
  "\<not> fit_trial_factors m \<Longrightarrow> map_of (fit_params env m) Trial = map_of (params m) Trial"
  by (simp_all add: fit_params_def Let_def update_conv')

lemma map_of_snapshot:
  "map_of (map (\<lambda>(key, node). (key, node v)) ps) key = map_option (\<lambda>node. node v) (map_of ps key)"
  by (induction ps) auto

text \<open>
  C9. After \<open>fit\<close>, at any values \<open>v\<close> of the variables, the snapshot returned by \<open>params\<close>
  holds under \<open>time\<close>, \<open>neuron\<close> and, with trial factors, \<open>trial\<close> the effective factors:
  with \<open>nonneg\<close> the softplus of every entry of the raw variable, which is not negative,
  and without it the raw variable itself. The prediction and the regularization in the
  objective are computed from these same values.
\<close>

theorem fit_effective_factors:
  assumes "fit env X niter lr m = (None, m')"
  shows "\<exists>xp rc ob. X_pred m' = Some xp \<and> recon_cost m' = Some rc \<and> objective m' = Some ob \<and>
           (\<forall>v. \<exists>ps Etime Eneuron Etrial Ewarp.
              params_snapshot (m'\<lparr>sess := Some v\<rparr>) = Inr ps \<and>
              map_of ps Time = Some Etime \<and> map_of ps Neuron = Some Eneuron \<and>
              map_of ps Warp = Some Ewarp \<and>
              (fit_trial_factors m \<longrightarrow> map_of ps Trial = Some Etrial) \<and>
              (nonneg m \<longrightarrow>
                 Etime = map (map softplus) (time_factors v) \<and>
                 Eneuron = map (map softplus) (neuron_factors v) \<and>
                 Etrial = map (map softplus) (trial_factors v) \<and>
                 (\<forall>E\<in>{Etime, Eneuron, Etrial}. \<forall>row\<in>set E. \<forall>x\<in>set row. 0 \<le> x)) \<and>
              (\<not> nonneg m \<longrightarrow>
                 Etime = time_factors v \<and> Eneuron = neuron_factors v \<and>
                 Etrial = trial_factors v) \<and>
              xp v = (if fit_trial_factors m
                      then einsum_ik_ijk_nk Etrial
                             (warp env (tile_trials (length X) Etime) Ewarp) Eneuron
                      else einsum_ijk_nk (warp env (tile_trials (length X) Etime) Ewarp) Eneuron) \<and>
              ob v = fl_add (rc v) (sum_list (map (\<lambda>(key, E). regularizers m key E) ps)))"
proof -
  from fit_result[OF assms] obtain rs w inits v' vals where
    m': "m' = (fit_built env X rs w inits m)\<lparr>sess := Some v', obj_history := Some vals\<rparr>"
    by blast
  let ?wtf = "warped_node env (length X) (factor_node (nonneg m) time_factors)
                (warp_param_node env)"
  let ?xp = "X_pred_node (fit_trial_factors m) (factor_node (nonneg m) trial_factors) ?wtf
               (factor_node (nonneg m) neuron_factors)"
  let ?rc = "recon_node (map3 bool_to_float (map3 isfinite X))
               (map3 nan_to_num (map3 astype_float32 X))
               (np_sum_bool (map3 isfinite X)) ?xp"
  let ?ob = "objective_node ?rc (regularization (regularizers m) (fit_params env m))"
  have a: "X_pred m' = Some ?xp" "recon_cost m' = Some ?rc" "objective m' = Some ?ob"
    and p: "params m' = fit_params env m"
    using m' by (simp_all add: fit_built_graph fit_built_params)
  have main: "\<exists>ps Etime Eneuron Etrial Ewarp.
              params_snapshot (m'\<lparr>sess := Some v\<rparr>) = Inr ps \<and>
              map_of ps Time = Some Etime \<and> map_of ps Neuron = Some Eneuron \<and>
              map_of ps Warp = Some Ewarp \<and>
              (fit_trial_factors m \<longrightarrow> map_of ps Trial = Some Etrial) \<and>
              (nonneg m \<longrightarrow>
                 Etime = map (map softplus) (time_factors v) \<and>
                 Eneuron = map (map softplus) (neuron_factors v) \<and>
                 Etrial = map (map softplus) (trial_factors v) \<and>
                 (\<forall>E\<in>{Etime, Eneuron, Etrial}. \<forall>row\<in>set E. \<forall>x\<in>set row. 0 \<le> x)) \<and>
              (\<not> nonneg m \<longrightarrow>
                 Etime = time_factors v \<and> Eneuron = neuron_factors v \<and>
                 Etrial = trial_factors v) \<and>
              ?xp v = (if fit_trial_factors m
                      then einsum_ik_ijk_nk Etrial
                             (warp env (tile_trials (length X) Etime) Ewarp) Eneuron
                      else einsum_ijk_nk (warp env (tile_trials (length X) Etime) Ewarp) Eneuron) \<and>
              ?ob v = fl_add (?rc v) (sum_list (map (\<lambda>(key, E). regularizers m key E) ps))" for v
  proof -
    let ?ps = "map (\<lambda>(key, node). (key, node v)) (fit_params env m)"
    have s: "params_snapshot (m'\<lparr>sess := Some v\<rparr>) = Inr ?ps"
      by (simp add: params_snapshot_def p)
    have reg: "regularization (regularizers m) (fit_params env m) v =
               sum_list (map (\<lambda>(key, E). regularizers m key E) ?ps)"
      by (simp add: regularization_def comp_def case_prod_unfold)
    show ?thesis
      apply (rule exI[of _ ?ps])
      apply (rule exI[of _ "rectifier (nonneg m) (time_factors v)"])
      apply (rule exI[of _ "rectifier (nonneg m) (neuron_factors v)"])
      apply (rule exI[of _ "rectifier (nonneg m) (trial_factors v)"])
      apply (rule exI[of _ "warp_node env (warp_vars v)"])
      apply (intro conjI impI)
      subgoal by (rule s)
      subgoal by (simp add: map_of_snapshot map_of_fit_params factor_node_def)
      subgoal by (simp add: map_of_snapshot map_of_fit_params factor_node_def)
      subgoal by (simp add: map_of_snapshot map_of_fit_params warp_param_node_def)
      subgoal by (simp add: map_of_snapshot map_of_fit_params factor_node_def)
      subgoal by (simp add: rectifier_def)
      subgoal by (simp add: rectifier_def)
      subgoal by (simp add: rectifier_def)
      subgoal using rectifier_nonneg by auto
      subgoal by (simp add: rectifier_def)
      subgoal by (simp add: rectifier_def)
      subgoal by (simp add: rectifier_def)
      subgoal by (simp add: X_pred_node_def warped_node_def factor_node_def warp_param_node_def)
      subgoal by (simp add: objective_node_def reg)
      done
  qed
  show ?thesis
    apply (rule exI[of _ ?xp], rule exI[of _ ?rc], rule exI[of _ ?ob])
    apply (intro conjI allI a)
    apply (rule main)
    done
qed

theorem fit_effective_factors_witness:
  "fit example_collab example_X (Scalar 2) (Scalar (1/10)) (example_model True True) =
     (None, snd (fit example_collab example_X (Scalar 2) (Scalar (1/10)) (example_model True True)))
   \<and> fit example_collab example_X (Scalar 2) (Scalar (1/10)) (example_model False False) =
     (None, snd (fit example_collab example_X (Scalar 2) (Scalar (1/10)) (example_model False False)))
   \<and> (\<exists>ps Etime Eneuron Etrial.
        params_snapshot ((snd (fit example_collab example_X (Scalar 2) (Scalar (1/10))
                                (example_model True True)))\<lparr>sess := Some example_vars\<rparr>) = Inr ps
        \<and> map_of ps Time = Some Etime \<and> map_of ps Neuron = Some Eneuron
        \<and> map_of ps Trial = Some Etrial
        \<and> Etime = [[softplus 1], [softplus 2]] \<and> Eneuron = [[softplus 3]]
        \<and> Etrial = [[softplus 2]]
        \<and> 0 \<le> softplus 1 \<and> 0 \<le> softplus 2 \<and> 0 \<le> softplus 3)
   \<and> (\<exists>ps Etime Eneuron.
        params_snapshot ((snd (fit example_collab example_X (Scalar 2) (Scalar (1/10))
                                (example_model False False)))\<lparr>sess := Some example_vars\<rparr>) = Inr ps
        \<and> map_of ps Time = Some Etime \<and> map_of ps Neuron = Some Eneuron
        \<and> Etime = [[1], [2]] \<and> Eneuron = [[3]])"
proof -
  let ?m1 = "snd (fit example_collab example_X (Scalar 2) (Scalar (1/10)) (example_model True True))"
  let ?m0 = "snd (fit example_collab example_X (Scalar 2) (Scalar (1/10)) (example_model False False))"
  note r1 = example_fit_returns[of True True]
  note r0 = example_fit_returns[of False False]
  have c: "nonneg (example_model True True)" "fit_trial_factors (example_model True True)"
    "\<not> nonneg (example_model False False)" "\<not> fit_trial_factors (example_model False False)"
    by (simp_all add: example_model_def TWPCA_init_def)
  have v: "time_factors example_vars = [[1], [2]]" "neuron_factors example_vars = [[3]]"
    "trial_factors example_vars = [[2]]"
    by (simp_all add: example_vars_def)
  from fit_effective_factors[OF r1] obtain xp1 rc1 ob1 where
    a1: "\<forall>v. \<exists>ps Etime Eneuron Etrial Ewarp.
              params_snapshot (?m1\<lparr>sess := Some v\<rparr>) = Inr ps \<and>
              map_of ps Time = Some Etime \<and> map_of ps Neuron = Some Eneuron \<and>
              map_of ps Warp = Some Ewarp \<and>
              (fit_trial_factors (example_model True True) \<longrightarrow> map_of ps Trial = Some Etrial) \<and>
              (nonneg (example_model True True) \<longrightarrow>
                 Etime = map (map softplus) (time_factors v) \<and>
                 Eneuron = map (map softplus) (neuron_factors v) \<and>
                 Etrial = map (map softplus) (trial_factors v) \<and>
                 (\<forall>E\<in>{Etime, Eneuron, Etrial}. \<forall>row\<in>set E. \<forall>x\<in>set row. 0 \<le> x)) \<and>
              (\<not> nonneg (example_model True True) \<longrightarrow>
                 Etime = time_factors v \<and> Eneuron = neuron_factors v \<and>
                 Etrial = trial_factors v) \<and>
              xp1 v = (if fit_trial_factors (example_model True True)
                      then einsum_ik_ijk_nk Etrial
                             (warp example_collab (tile_trials (length example_X) Etime) Ewarp) Eneuron
                      else einsum_ijk_nk (warp example_collab (tile_trials (length example_X) Etime) Ewarp) Eneuron) \<and>
              ob1 v = fl_add (rc1 v) (sum_list (map (\<lambda>(key, E). regularizers (example_model True True) key E) ps))"
    by (elim exE conjE) (rule that; assumption)
  from a1[rule_format, of example_vars] obtain ps Etime Eneuron Etrial Ewarp where
    b1: "params_snapshot (?m1\<lparr>sess := Some example_vars\<rparr>) = Inr ps \<and>
              map_of ps Time = Some Etime \<and> map_of ps Neuron = Some Eneuron \<and>
              map_of ps Warp = Some Ewarp \<and>
              (fit_trial_factors (example_model True True) \<longrightarrow> map_of ps Trial = Some Etrial) \<and>
              (nonneg (example_model True True) \<longrightarrow>
                 Etime = map (map softplus) (time_factors example_vars) \<and>
                 Eneuron = map (map softplus) (neuron_factors example_vars) \<and>
                 Etrial = map (map softplus) (trial_factors example_vars) \<and>
                 (\<forall>E\<in>{Etime, Eneuron, Etrial}. \<forall>row\<in>set E. \<forall>x\<in>set row. 0 \<le> x)) \<and>
              (\<not> nonneg (example_model True True) \<longrightarrow>
                 Etime = time_factors example_vars \<and> Eneuron = neuron_factors example_vars \<and>
                 Etrial = trial_factors example_vars) \<and>
              xp1 example_vars = (if fit_trial_factors (example_model True True)
                      then einsum_ik_ijk_nk Etrial
                             (warp example_collab (tile_trials (length example_X) Etime) Ewarp) Eneuron
                      else einsum_ijk_nk (warp example_collab (tile_trials (length example_X) Etime) Ewarp) Eneuron) \<and>
              ob1 example_vars = fl_add (rc1 example_vars) (sum_list (map (\<lambda>(key, E). regularizers (example_model True True) key E) ps))"
    by (elim exE) (rule that; assumption)
  have e1: "\<exists>ps Etime Eneuron Etrial.
        params_snapshot (?m1\<lparr>sess := Some example_vars\<rparr>) = Inr ps
        \<and> map_of ps Time = Some Etime \<and> map_of ps Neuron = Some Eneuron
        \<and> map_of ps Trial = Some Etrial
        \<and> Etime = [[softplus 1], [softplus 2]] \<and> Eneuron = [[softplus 3]]
        \<and> Etrial = [[softplus 2]]
        \<and> 0 \<le> softplus 1 \<and> 0 \<le> softplus 2 \<and> 0 \<le> softplus 3"
    apply (rule exI[of _ ps], rule exI[of _ Etime], rule exI[of _ Eneuron], rule exI[of _ Etrial])
    using b1 c v by auto
  from fit_effective_factors[OF r0] obtain xp0 rc0 ob0 where
    a0: "\<forall>v. \<exists>ps Etime Eneuron Etrial Ewarp.
              params_snapshot (?m0\<lparr>sess := Some v\<rparr>) = Inr ps \<and>
              map_of ps Time = Some Etime \<and> map_of ps Neuron = Some Eneuron \<and>
              map_of ps Warp = Some Ewarp \<and>
              (fit_trial_factors (example_model False False) \<longrightarrow> map_of ps Trial = Some Etrial) \<and>
              (nonneg (example_model False False) \<longrightarrow>
                 Etime = map (map softplus) (time_factors v) \<and>
                 Eneuron = map (map softplus) (neuron_factors v) \<and>
                 Etrial = map (map softplus) (trial_factors v) \<and>
                 (\<forall>E\<in>{Etime, Eneuron, Etrial}. \<forall>row\<in>set E. \<forall>x\<in>set row. 0 \<le> x)) \<and>
              (\<not> nonneg (example_model False False) \<longrightarrow>
                 Etime = time_factors v \<and> Eneuron = neuron_factors v \<and>
                 Etrial = trial_factors v) \<and>
              xp0 v = (if fit_trial_factors (example_model False False)
                      then einsum_ik_ijk_nk Etrial
                             (warp example_collab (tile_trials (length example_X) Etime) Ewarp) Eneuron
                      else einsum_ijk_nk (warp example_collab (tile_trials (length example_X) Etime) Ewarp) Eneuron) \<and>
              ob0 v = fl_add (rc0 v) (sum_list (map (\<lambda>(key, E). regularizers (example_model False False) key E) ps))"
    by (elim exE conjE) (rule that; assumption)
  from a0[rule_format, of example_vars] obtain ps0 Etime0 Eneuron0 Etrial0 Ewarp0 where
    b0: "params_snapshot (?m0\<lparr>sess := Some example_vars\<rparr>) = Inr ps0 \<and>
              map_of ps0 Time = Some Etime0 \<and> map_of ps0 Neuron = Some Eneuron0 \<and>
              map_of ps0 Warp = Some Ewarp0 \<and>
              (fit_trial_factors (example_model False False) \<longrightarrow> map_of ps0 Trial = Some Etrial0) \<and>
              (nonneg (example_model False False) \<longrightarrow>
                 Etime0 = map (map softplus) (time_factors example_vars) \<and>
                 Eneuron0 = map (map softplus) (neuron_factors example_vars) \<and>
                 Etrial0 = map (map softplus) (trial_factors example_vars) \<and>
                 (\<forall>E\<in>{Etime0, Eneuron0, Etrial0}. \<forall>row\<in>set E. \<forall>x\<in>set row. 0 \<le> x)) \<and>
              (\<not> nonneg (example_model False False) \<longrightarrow>
                 Etime0 = time_factors example_vars \<and> Eneuron0 = neuron_factors example_vars \<and>
                 Etrial0 = trial_factors example_vars) \<and>
              xp0 example_vars = (if fit_trial_factors (example_model False False)
                      then einsum_ik_ijk_nk Etrial0
                             (warp example_collab (tile_trials (length example_X) Etime0) Ewarp0) Eneuron0
                      else einsum_ijk_nk (warp example_collab (tile_trials (length example_X) Etime0) Ewarp0) Eneuron0) \<and>
              ob0 example_vars = fl_add (rc0 example_vars) (sum_list (map (\<lambda>(key, E). regularizers (example_model False False) key E) ps0))"
    by (elim exE) (rule that; assumption)
  have e0: "\<exists>ps Etime Eneuron.
        params_snapshot (?m0\<lparr>sess := Some example_vars\<rparr>) = Inr ps
        \<and> map_of ps Time = Some Etime \<and> map_of ps Neuron = Some Eneuron
        \<and> Etime = [[1], [2]] \<and> Eneuron = [[3]]"
    apply (rule exI[of _ ps0], rule exI[of _ Etime0], rule exI[of _ Eneuron0])
    using b0 c v by simp
  show ?thesis by (intro conjI r0 r1 e0 e1)
qed

subsection \<open>The cast to the 32-bit format\<close>

lemma round_float32_one: "round_float32 1 = 1"
proof -
  have u: "float32_ulp 1 = 1 / 2 ^ 23"
    by (simp add: float32_ulp_def powr_minus divide_simps)
  show ?thesis by (simp add: round_float32_def u round_half_even_def Let_def)
qed


text \<open>\<open>1 + 2 ^ - 30\<close> lies between \<open>1\<close> and its successor \<open>1 + 2 ^ - 23\<close> in the format.\<close>

lemma round_float32_between: "round_float32 (1 + 1 / 2 ^ 30) = 1"
proof -
  have "0 \<le> log 2 (1 + 1 / 2 ^ 30 :: real)" by simp
  moreover have "log 2 (1 + 1 / 2 ^ 30 :: real) < 1"
    using log_less_iff[of 2 "1 + 1 / 2 ^ 30" 1] by simp
  ultimately have "\<lfloor>log 2 (1 + 1 / 2 ^ 30 :: real)\<rfloor> = 0" by (simp add: floor_eq_iff)
  then have u: "float32_ulp (1 + 1 / 2 ^ 30) = 1 / 2 ^ 23"
    by (simp add: float32_ulp_def powr_minus divide_simps)
  have f: "\<lfloor>(1 + 1 / 2 ^ 30) * 2 ^ 23 :: real\<rfloor> = 2 ^ 23" by (simp add: floor_eq_iff)
  show ?thesis
    unfolding round_float32_def u using f
    by (simp add: round_half_even_def Let_def)
qed

text \<open>The rounded number is within half a spacing of the number.\<close>

lemma round_half_even_error: "\<bar>of_int (round_half_even x) - x\<bar> \<le> 1 / 2"
  unfolding round_half_even_def Let_def by (auto simp: abs_if) linarith+

lemma round_float32_error: "\<bar>round_float32 r - r\<bar> \<le> float32_ulp r / 2"
proof (cases "r = 0")
  case True
  then show ?thesis by (simp add: round_float32_def float32_ulp_def)
next
  case False
  let ?u = "float32_ulp r"
  have u: "0 < ?u" by (simp add: float32_ulp_def)
  have "round_float32 r - r = (of_int (round_half_even (r / ?u)) - r / ?u) * ?u"
    using False u by (simp add: round_float32_def algebra_simps)
  then have "\<bar>round_float32 r - r\<bar> = \<bar>of_int (round_half_even (r / ?u)) - r / ?u\<bar> * ?u"
    using u by (simp add: abs_mult)
  also have "\<dots> \<le> 1 / 2 * ?u"
    by (rule mult_right_mono[OF round_half_even_error]) (use u in simp)
  finally show ?thesis by simp
qed

subsection \<open>The mask and the stored data\<close>

text \<open>The collaborators receive the cast input, with its not-a-number and infinite
  entries in place.\<close>

lemma length_map3: "length (map3 f X) = length X"
  by (simp add: map3_def)

lemma fit_collaborators:
  assumes "fit env X niter lr m = (None, m')"
  shows "\<exists>rs w inits.
           rev_last_idx (map3 isfinite X) = Inr rs \<and>
           generate_warps env (fst (shape3 X)) (fst (snd (shape3 X)))
             (case shared_length m of None \<Rightarrow> fst (snd (shape3 X)) | Some s \<Rightarrow> s)
             (map3 astype_float32 X) (last_idx_of (fst (snd (shape3 X))) rs) = Inr w \<and>
           compute_lowrank_factors env (map3 astype_float32 X) (n_components m)
             (fit_trial_factors m) (nonneg m) (last_idx_of (fst (snd (shape3 X))) rs) = Inr inits"
  using assms unfolding fit_def
  by (auto simp: Let_def shape3_map3 split: sum.splits prod.splits)

lemma example4_fit_returns:
  "fit example_collab example_X4 (Scalar 2) (Scalar (1/10)) (example_model nn ftf) =
     (None, snd (fit example_collab example_X4 (Scalar 2) (Scalar (1/10)) (example_model nn ftf)))"
proof -
  have r: "rev_last_idx (map3 isfinite example_X4) = Inr [1]"
    by (simp add: rev_last_idx_def all_last_axis_def map3_def example_X4_def)
  have "fit example_collab example_X4 (Scalar 2) (Scalar (1/10)) (example_model nn ftf) =
     train_phases [(2, 1/10)]
       (fit_built example_collab example_X4 [1] () ([[2]], [[1], [2]], [[3]])
          (example_model nn ftf))"
    using fit_total[of "Scalar 2" "Scalar (1/10)" "[2]" "[1/10]" example_X4 "[1]"
        example_collab "example_model nn ftf" "()" "([[2]], [[1], [2]], [[3]])"]
    by (simp add: r example_collab_def)
  then show ?thesis
    using train_phases_fit_built[of "[(2, 1/10)]" example_collab example_X4 "[1]" "()"
          "([[2]], [[1], [2]], [[3]])" "example_model nn ftf"]
    by auto
qed

lemma fit_stored:
  assumes "fit env X niter lr m = (None, m')"
  shows "mask m' = Some (map3 bool_to_float (map3 isfinite X))"
    and "X_data m' = Some (map3 nan_to_num (map3 astype_float32 X))"
    and "num_datapoints m' = Some (np_sum_bool (map3 isfinite X))"
proof -
  from fit_result[OF assms] obtain rs w inits v' vals where
    m': "m' = (fit_built env X rs w inits m)\<lparr>sess := Some v', obj_history := Some vals\<rparr>"
    by blast
  show "mask m' = Some (map3 bool_to_float (map3 isfinite X))"
    and "X_data m' = Some (map3 nan_to_num (map3 astype_float32 X))"
    and "num_datapoints m' = Some (np_sum_bool (map3 isfinite X))"
    using m' by (simp_all add: fit_built_data)
qed

lemma fit_nodes:
  assumes "fit env X niter lr m = (None, m')"
  shows "\<exists>xp. X_pred m' = Some xp \<and>
           recon_cost m' =
             Some (recon_node (map3 bool_to_float (map3 isfinite X))
                     (map3 nan_to_num (map3 astype_float32 X))
                     (np_sum_bool (map3 isfinite X)) xp)"
proof -
  from fit_result[OF assms] obtain rs w inits v' vals where
    m': "m' = (fit_built env X rs w inits m)\<lparr>sess := Some v', obj_history := Some vals\<rparr>"
    by blast
  show ?thesis using m' by (simp add: fit_built_graph fit_built_params)
qed

text \<open>
  C7 as stated. The input holds a finite number that the 32-bit format has not, a finite
  number beyond its range and an infinity: the first is stored rounded, the two others as
  the largest finite number of the format, and the mask of the second is one. The stored
  data is not the input with not-a-number replaced by zero.
\<close>

theorem fit_stored_data_not_input:
  "fit example_collab example_X4 (Scalar 2) (Scalar (1/10)) (example_model False False) =
     (None, snd (fit example_collab example_X4 (Scalar 2) (Scalar (1/10)) (example_model False False)))
   \<and> nan_zeroed example_X4 = [[[Finite (1 + 1 / 2 ^ 30)], [Finite (2 ^ 130)], [PInf]]]
   \<and> mask (snd (fit example_collab example_X4 (Scalar 2) (Scalar (1/10))
                  (example_model False False))) = Some [[[1], [1], [0]]]
   \<and> X_data (snd (fit example_collab example_X4 (Scalar 2) (Scalar (1/10))
                    (example_model False False))) = Some [[[1], [float32_max], [float32_max]]]
   \<and> map_option (map3 Finite)
       (X_data (snd (fit example_collab example_X4 (Scalar 2) (Scalar (1/10))
                       (example_model False False)))) \<noteq> Some (nan_zeroed example_X4)"
proof -
  let ?m = "snd (fit example_collab example_X4 (Scalar 2) (Scalar (1/10)) (example_model False False))"
  note r = example4_fit_returns[of False False]
  have z: "nan_zeroed example_X4 = [[[Finite (1 + 1 / 2 ^ 30)], [Finite (2 ^ 130)], [PInf]]]"
    by (simp add: nan_zeroed_def map3_def example_X4_def)
  have M: "mask ?m = Some [[[1], [1], [0]]]"
    unfolding fit_stored(1)[OF r] by (simp add: map3_def example_X4_def bool_to_float_def)
  have c1: "astype_float32 (Finite (1 + 1 / 2 ^ 30)) = Finite 1"
    unfolding astype_float32.simps round_float32_between
    by (simp add: float32_overflow_def)
  have c2: "astype_float32 (Finite (2 ^ 130)) = PInf"
    by (simp add: float32_overflow_def)
  note c = c1 c2
  have "map3 nan_to_num (map3 astype_float32 example_X4) =
        [[[1], [float32_max], [float32_max]]]"
    unfolding example_X4_def map3_def
    by (simp only: list.map c astype_float32.simps(2) nan_to_num.simps)
  then have D: "X_data ?m = Some [[[1], [float32_max], [float32_max]]]"
    using fit_stored(2)[OF r] by simp
  have n: "map_option (map3 Finite) (X_data ?m) \<noteq> Some (nan_zeroed example_X4)"
    unfolding D z by (simp add: map3_def)
  show ?thesis by (intro conjI r z M D n)
qed

text \<open>
  C7, amended. After \<open>fit\<close> the stored mask has the shape of the input, with \<open>1\<close> where the
  entry of the input is finite and \<open>0\<close> elsewhere. The stored data has the shape of the input
  and holds the entries of the input cast to the 32-bit format, with not-a-number and
  infinities replaced: zero where the entry is not-a-number, the largest finite number of
  the format, with the sign of the entry, where the entry is infinite or beyond the range of
  the format, and elsewhere the entry rounded to the format, which is the entry itself when
  the format has it. The reconstruction cost reads the stored data and the mask; the warps
  and the initial factors are computed from the cast input, in which not-a-number and the
  infinities are still in place.
\<close>

theorem fit_mask_and_stored_data:
  assumes "fit env X niter lr m = (None, m')"
  shows "\<exists>M D num xp rs w inits.
           mask m' = Some M \<and> X_data m' = Some D \<and> num_datapoints m' = Some num \<and>
           X_pred m' = Some xp \<and> recon_cost m' = Some (recon_node M D num xp) \<and>
           rev_last_idx (map3 isfinite X) = Inr rs \<and>
           generate_warps env (length X) (fst (snd (shape3 X)))
             (case shared_length m of None \<Rightarrow> fst (snd (shape3 X)) | Some s \<Rightarrow> s)
             (map3 astype_float32 X) (last_idx_of (fst (snd (shape3 X))) rs) = Inr w \<and>
           compute_lowrank_factors env (map3 astype_float32 X) (n_components m)
             (fit_trial_factors m) (nonneg m) (last_idx_of (fst (snd (shape3 X))) rs) = Inr inits \<and>
           length M = length X \<and> length D = length X \<and>
           (\<forall>i<length X.
              length (M ! i) = length (X ! i) \<and> length (D ! i) = length (X ! i) \<and>
              (\<forall>j<length (X ! i).
                 length (M ! i ! j) = length (X ! i ! j) \<and>
                 length (D ! i ! j) = length (X ! i ! j) \<and>
                 (\<forall>n<length (X ! i ! j).
                    M ! i ! j ! n = (if isfinite (X ! i ! j ! n) then 1 else 0) \<and>
                    (X ! i ! j ! n = NaN \<longrightarrow> D ! i ! j ! n = 0) \<and>
                    (X ! i ! j ! n = PInf \<longrightarrow> D ! i ! j ! n = float32_max) \<and>
                    (X ! i ! j ! n = NInf \<longrightarrow> D ! i ! j ! n = - float32_max) \<and>
                    (\<forall>r. X ! i ! j ! n = Finite r \<longrightarrow>
                       (float32_overflow \<le> r \<longrightarrow> D ! i ! j ! n = float32_max) \<and>
                       (r \<le> - float32_overflow \<longrightarrow> D ! i ! j ! n = - float32_max) \<and>
                       (\<bar>r\<bar> < float32_overflow \<longrightarrow> D ! i ! j ! n = round_float32 r) \<and>
                       (\<bar>r\<bar> < float32_overflow \<longrightarrow> round_float32 r = r \<longrightarrow>
                          D ! i ! j ! n = r)))))"
proof -
  let ?M = "map3 bool_to_float (map3 isfinite X)"
  let ?D = "map3 nan_to_num (map3 astype_float32 X)"
  let ?num = "np_sum_bool (map3 isfinite X)"
  note s = fit_stored[OF assms]
  from fit_nodes[OF assms] obtain xp where
    xp: "X_pred m' = Some xp" "recon_cost m' = Some (recon_node ?M ?D ?num xp)" by blast
  from fit_collaborators[OF assms, unfolded shape3_trials] obtain rs w inits where
    c: "rev_last_idx (map3 isfinite X) = Inr rs"
      "generate_warps env (length X) (fst (snd (shape3 X)))
             (case shared_length m of None \<Rightarrow> fst (snd (shape3 X)) | Some s \<Rightarrow> s)
             (map3 astype_float32 X) (last_idx_of (fst (snd (shape3 X))) rs) = Inr w"
      "compute_lowrank_factors env (map3 astype_float32 X) (n_components m)
             (fit_trial_factors m) (nonneg m) (last_idx_of (fst (snd (shape3 X))) rs) = Inr inits"
    by blast
  have e: "length ?M = length X \<and> length ?D = length X \<and>
           (\<forall>i<length X.
              length (?M ! i) = length (X ! i) \<and> length (?D ! i) = length (X ! i) \<and>
              (\<forall>j<length (X ! i).
                 length (?M ! i ! j) = length (X ! i ! j) \<and>
                 length (?D ! i ! j) = length (X ! i ! j) \<and>
                 (\<forall>n<length (X ! i ! j).
                    ?M ! i ! j ! n = (if isfinite (X ! i ! j ! n) then 1 else 0) \<and>
                    (X ! i ! j ! n = NaN \<longrightarrow> ?D ! i ! j ! n = 0) \<and>
                    (X ! i ! j ! n = PInf \<longrightarrow> ?D ! i ! j ! n = float32_max) \<and>
                    (X ! i ! j ! n = NInf \<longrightarrow> ?D ! i ! j ! n = - float32_max) \<and>
                    (\<forall>r. X ! i ! j ! n = Finite r \<longrightarrow>
                       (float32_overflow \<le> r \<longrightarrow> ?D ! i ! j ! n = float32_max) \<and>
                       (r \<le> - float32_overflow \<longrightarrow> ?D ! i ! j ! n = - float32_max) \<and>
                       (\<bar>r\<bar> < float32_overflow \<longrightarrow> ?D ! i ! j ! n = round_float32 r) \<and>
                       (\<bar>r\<bar> < float32_overflow \<longrightarrow> round_float32 r = r \<longrightarrow>
                          ?D ! i ! j ! n = r)))))"
    by (auto simp: map3_def bool_to_float_def float32_overflow_def)
  show ?thesis
    apply (rule exI[of _ ?M], rule exI[of _ ?D], rule exI[of _ ?num], rule exI[of _ xp])
    apply (rule exI[of _ rs], rule exI[of _ w], rule exI[of _ inits])
    by (intro conjI s xp c e[THEN conjunct1] e[THEN conjunct2, THEN conjunct1]
          e[THEN conjunct2, THEN conjunct2])
qed

lemma nested_entry:
  assumes "\<forall>i<a. A i \<and> B i \<and> (\<forall>j<b i. C i j \<and> E i j \<and> (\<forall>n<c i j. P i j n))"
    and "i < a" and "j < b i" and "n < c i j"
  shows "P i j n"
  using assms by blast

theorem fit_mask_and_stored_data_witness:
  "fit example_collab example_X2 (Scalar 2) (Scalar (1/10)) (example_model False False) =
     (None, snd (fit example_collab example_X2 (Scalar 2) (Scalar (1/10)) (example_model False False)))
   \<and> fit example_collab example_X4 (Scalar 2) (Scalar (1/10)) (example_model False False) =
     (None, snd (fit example_collab example_X4 (Scalar 2) (Scalar (1/10)) (example_model False False)))
   \<and> (\<exists>M D. mask (snd (fit example_collab example_X2 (Scalar 2) (Scalar (1/10))
                          (example_model False False))) = Some M
          \<and> X_data (snd (fit example_collab example_X2 (Scalar 2) (Scalar (1/10))
                          (example_model False False))) = Some D
          \<and> length M = 2 \<and> length D = 2
          \<and> M ! 0 ! 0 ! 0 = 1 \<and> D ! 0 ! 0 ! 0 = 1
          \<and> M ! 0 ! 1 ! 0 = 0 \<and> D ! 0 ! 1 ! 0 = 0
          \<and> M ! 1 ! 1 ! 0 = 0 \<and> D ! 1 ! 1 ! 0 = float32_max)
   \<and> (\<exists>M D. mask (snd (fit example_collab example_X4 (Scalar 2) (Scalar (1/10))
                          (example_model False False))) = Some M
          \<and> X_data (snd (fit example_collab example_X4 (Scalar 2) (Scalar (1/10))
                          (example_model False False))) = Some D
          \<and> M ! 0 ! 0 ! 0 = 1 \<and> D ! 0 ! 0 ! 0 = 1
          \<and> M ! 0 ! 1 ! 0 = 1 \<and> D ! 0 ! 1 ! 0 = float32_max
          \<and> M ! 0 ! 2 ! 0 = 0 \<and> D ! 0 ! 2 ! 0 = float32_max)"
proof -
  let ?m2 = "snd (fit example_collab example_X2 (Scalar 2) (Scalar (1/10)) (example_model False False))"
  let ?m4 = "snd (fit example_collab example_X4 (Scalar 2) (Scalar (1/10)) (example_model False False))"
  note r2 = example2_fit_returns[of False False]
  note r4 = example4_fit_returns[of False False]
  from fit_mask_and_stored_data[OF r2] obtain M D where
    MD: "mask ?m2 = Some M" "X_data ?m2 = Some D" "length M = length example_X2"
      "length D = length example_X2"
    and e: "\<forall>i<length example_X2.
              length (M ! i) = length (example_X2 ! i) \<and> length (D ! i) = length (example_X2 ! i) \<and>
              (\<forall>j<length (example_X2 ! i).
                 length (M ! i ! j) = length (example_X2 ! i ! j) \<and>
                 length (D ! i ! j) = length (example_X2 ! i ! j) \<and>
                 (\<forall>n<length (example_X2 ! i ! j).
                    M ! i ! j ! n = (if isfinite (example_X2 ! i ! j ! n) then 1 else 0) \<and>
                    (example_X2 ! i ! j ! n = NaN \<longrightarrow> D ! i ! j ! n = 0) \<and>
                    (example_X2 ! i ! j ! n = PInf \<longrightarrow> D ! i ! j ! n = float32_max) \<and>
                    (example_X2 ! i ! j ! n = NInf \<longrightarrow> D ! i ! j ! n = - float32_max) \<and>
                    (\<forall>r. example_X2 ! i ! j ! n = Finite r \<longrightarrow>
                       (float32_overflow \<le> r \<longrightarrow> D ! i ! j ! n = float32_max) \<and>
                       (r \<le> - float32_overflow \<longrightarrow> D ! i ! j ! n = - float32_max) \<and>
                       (\<bar>r\<bar> < float32_overflow \<longrightarrow> D ! i ! j ! n = round_float32 r) \<and>
                       (\<bar>r\<bar> < float32_overflow \<longrightarrow> round_float32 r = r \<longrightarrow>
                          D ! i ! j ! n = r))))"
    by (elim exE conjE) (rule that; assumption)
  have e00: "M ! 0 ! 0 ! 0 = 1 \<and> D ! 0 ! 0 ! 0 = 1"
    using nested_entry[OF e, of 0 0 0]
    by (simp add: example_X2_def float32_overflow_def round_float32_one)
  have e01: "M ! 0 ! 1 ! 0 = 0 \<and> D ! 0 ! 1 ! 0 = 0"
    using nested_entry[OF e, of 0 1 0] by (simp add: example_X2_def)
  have e11: "M ! 1 ! 1 ! 0 = 0 \<and> D ! 1 ! 1 ! 0 = float32_max"
    using nested_entry[OF e, of 1 1 0] by (simp add: example_X2_def)
  have l2: "length example_X2 = 2" by (simp add: example_X2_def)
  have w2: "\<exists>M D. mask ?m2 = Some M \<and> X_data ?m2 = Some D
          \<and> length M = 2 \<and> length D = 2
          \<and> M ! 0 ! 0 ! 0 = 1 \<and> D ! 0 ! 0 ! 0 = 1
          \<and> M ! 0 ! 1 ! 0 = 0 \<and> D ! 0 ! 1 ! 0 = 0
          \<and> M ! 1 ! 1 ! 0 = 0 \<and> D ! 1 ! 1 ! 0 = float32_max"
    using MD e00 e01 e11 l2 by auto
  from fit_mask_and_stored_data[OF r4] obtain M4 D4 where
    MD4: "mask ?m4 = Some M4" "X_data ?m4 = Some D4"
    and e4: "\<forall>i<length example_X4.
              length (M4 ! i) = length (example_X4 ! i) \<and> length (D4 ! i) = length (example_X4 ! i) \<and>
              (\<forall>j<length (example_X4 ! i).
                 length (M4 ! i ! j) = length (example_X4 ! i ! j) \<and>
                 length (D4 ! i ! j) = length (example_X4 ! i ! j) \<and>
                 (\<forall>n<length (example_X4 ! i ! j).
                    M4 ! i ! j ! n = (if isfinite (example_X4 ! i ! j ! n) then 1 else 0) \<and>
                    (example_X4 ! i ! j ! n = NaN \<longrightarrow> D4 ! i ! j ! n = 0) \<and>
                    (example_X4 ! i ! j ! n = PInf \<longrightarrow> D4 ! i ! j ! n = float32_max) \<and>
                    (example_X4 ! i ! j ! n = NInf \<longrightarrow> D4 ! i ! j ! n = - float32_max) \<and>
                    (\<forall>r. example_X4 ! i ! j ! n = Finite r \<longrightarrow>
                       (float32_overflow \<le> r \<longrightarrow> D4 ! i ! j ! n = float32_max) \<and>
                       (r \<le> - float32_overflow \<longrightarrow> D4 ! i ! j ! n = - float32_max) \<and>
                       (\<bar>r\<bar> < float32_overflow \<longrightarrow> D4 ! i ! j ! n = round_float32 r) \<and>
                       (\<bar>r\<bar> < float32_overflow \<longrightarrow> round_float32 r = r \<longrightarrow>
                          D4 ! i ! j ! n = r))))"
    by (elim exE conjE) (rule that; assumption)
  have f00: "M4 ! 0 ! 0 ! 0 = 1 \<and> D4 ! 0 ! 0 ! 0 = 1"
  proof -
    have l: "0 < length example_X4" "0 < length (example_X4 ! 0)"
      "0 < length (example_X4 ! 0 ! 0)"
      by (simp_all add: example_X4_def)
    have x: "example_X4 ! 0 ! 0 ! 0 = Finite (1 + 1 / 2 ^ 30)"
      by (simp add: example_X4_def)
    have a: "\<bar>1 + 1 / 2 ^ 30\<bar> < float32_overflow" by (simp add: float32_overflow_def)
    note p = nested_entry[OF e4 l]
    have "M4 ! 0 ! 0 ! 0 = 1" using p[THEN conjunct1] unfolding x by simp
    moreover have "D4 ! 0 ! 0 ! 0 = round_float32 (1 + 1 / 2 ^ 30)"
      using p[THEN conjunct2, THEN conjunct2, THEN conjunct2, THEN conjunct2, rule_format,
          OF x, THEN conjunct2, THEN conjunct2, THEN conjunct1, rule_format, OF a] .
    ultimately show ?thesis unfolding round_float32_between by (rule conjI)
  qed
  have f01: "M4 ! 0 ! 1 ! 0 = 1 \<and> D4 ! 0 ! 1 ! 0 = float32_max"
    using nested_entry[OF e4, of 0 1 0]
    by (simp add: example_X4_def float32_overflow_def)
  have f02: "M4 ! 0 ! 2 ! 0 = 0 \<and> D4 ! 0 ! 2 ! 0 = float32_max"
    using nested_entry[OF e4, of 0 2 0] by (simp add: example_X4_def)
  have w4: "\<exists>M D. mask ?m4 = Some M \<and> X_data ?m4 = Some D
          \<and> M ! 0 ! 0 ! 0 = 1 \<and> D ! 0 ! 0 ! 0 = 1
          \<and> M ! 0 ! 1 ! 0 = 1 \<and> D ! 0 ! 1 ! 0 = float32_max
          \<and> M ! 0 ! 2 ! 0 = 0 \<and> D ! 0 ! 2 ! 0 = float32_max"
    using MD4 f00 f01 f02 by auto
  show ?thesis by (intro conjI r2 r4 w2 w4)
qed

subsection \<open>The objective\<close>









lemma fl_mul_NaN: "fl_mul x NaN = NaN" "fl_mul NaN x = NaN"
  by (cases x; simp)+

























subsection \<open>\<open>predict\<close> on an array\<close>

lemma fit_keeps_flags:
  assumes "fit env X niter lr m = (None, m')"
  shows "fit_trial_factors m' = fit_trial_factors m" and "nonneg m' = nonneg m"
    and "n_components m' = n_components m" and "warped_time_factors m' \<noteq> None"
proof -
  from fit_result[OF assms] obtain rs w inits v' vals where
    m': "m' = (fit_built env X rs w inits m)\<lparr>sess := Some v', obj_history := Some vals\<rparr>"
    by blast
  show "fit_trial_factors m' = fit_trial_factors m" and "nonneg m' = nonneg m"
    and "n_components m' = n_components m" and "warped_time_factors m' \<noteq> None"
    unfolding m' fit_built_def fit_graph_def fit_prepared_def
    by (simp_all add: Let_def split: prod.splits)
qed

lemma example3_fit_returns:
  "fit example_collab example_X3 (Scalar 2) (Scalar (1/10)) (example_model nn ftf) =
     (None, snd (fit example_collab example_X3 (Scalar 2) (Scalar (1/10)) (example_model nn ftf)))"
proof -
  have r: "rev_last_idx (map3 isfinite example_X3) = Inr [0]"
    by (simp add: rev_last_idx_def all_last_axis_def map3_def example_X3_def)
  have "fit example_collab example_X3 (Scalar 2) (Scalar (1/10)) (example_model nn ftf) =
     train_phases [(2, 1/10)]
       (fit_built example_collab example_X3 [0] () ([[2]], [[1], [2]], [[3]])
          (example_model nn ftf))"
    using fit_total[of "Scalar 2" "Scalar (1/10)" "[2]" "[1/10]" example_X3 "[0]"
        example_collab "example_model nn ftf" "()" "([[2]], [[1], [2]], [[3]])"]
    by (simp add: r example_collab_def)
  then show ?thesis
    using train_phases_fit_built[of "[(2, 1/10)]" example_collab example_X3 "[0]" "()"
          "([[2]], [[1], [2]], [[3]])" "example_model nn ftf"]
    by auto
qed

text \<open>With trial factors, \<open>predict\<close> on an array stops at \<open>self.self\<close> whatever the array.\<close>

lemma predict_trial_factors_fails:
  assumes "sess m \<noteq> None" and "warped_time_factors m \<noteq> None" and "fit_trial_factors m"
  shows "predict env m (Ndarray A) = Inl (AttributeError ''self'')"
  using assms unfolding predict_def by (auto split: option.splits)

text \<open>Without trial factors, an array with another number of trials or of timepoints is
  rejected with a \<open>ValueError\<close>.\<close>

lemma predict_shape_mismatch:
  assumes "sess m = Some v" and "warped_time_factors m = Some wtf"
    and "\<not> fit_trial_factors m"
    and "length (wtf v) \<noteq> fst (shape3 A) \<or>
         fst (snd (shape3 (wtf v))) \<noteq> fst (snd (shape3 A))"
  shows "\<exists>msg. predict env m (Ndarray A) = Inl (ValueError msg)"
  using assms unfolding predict_def predict_refit_def by (auto simp: Let_def)

text \<open>
  C3. The specification has \<open>predict\<close> scale the warped time factors by the trial factors
  and refit the neuron factors. On the object fitted with trial factors, \<open>predict\<close> on an
  array of the fitted shape returns nothing: it raises the \<open>AttributeError\<close> of line 232.
\<close>

theorem predict_trial_factors_example:
  "fit example_collab example_X3 (Scalar 2) (Scalar (1/10)) (example_model False True) =
     (None, snd (fit example_collab example_X3 (Scalar 2) (Scalar (1/10)) (example_model False True)))
   \<and> shape3 example_X3 = (1, 2, 1)
   \<and> predict example_collab
       (snd (fit example_collab example_X3 (Scalar 2) (Scalar (1/10)) (example_model False True)))
       (Ndarray example_X3) = Inl (AttributeError ''self'')"
proof -
  let ?m = "snd (fit example_collab example_X3 (Scalar 2) (Scalar (1/10)) (example_model False True))"
  note r = example3_fit_returns[of False True]
  have f: "fit_trial_factors ?m"
    using fit_keeps_flags(1)[OF r] by (simp add: example_model_def TWPCA_init_def)
  have s: "shape3 example_X3 = (1, 2, 1)" by (simp add: shape3_def example_X3_def)
  show ?thesis
    using r s predict_trial_factors_fails[OF fit_fitted[OF r] fit_keeps_flags(4)[OF r] f]
    by simp
qed

text \<open>
  C8. The specification has \<open>predict\<close> reject an array with another number of trials by a
  shape error. On the object fitted with trial factors on one trial, \<open>predict\<close> on an
  array of two trials raises the \<open>AttributeError\<close> of line 232 and no \<open>ValueError\<close>: the
  size checks of lines 236-240 are not reached.
\<close>

theorem predict_mismatch_trial_factors_example:
  "fit example_collab example_X3 (Scalar 2) (Scalar (1/10)) (example_model False True) =
     (None, snd (fit example_collab example_X3 (Scalar 2) (Scalar (1/10)) (example_model False True)))
   \<and> shape3 example_X3 = (1, 2, 1) \<and> shape3 example_Y = (2, 2, 1)
   \<and> predict example_collab
       (snd (fit example_collab example_X3 (Scalar 2) (Scalar (1/10)) (example_model False True)))
       (Ndarray example_Y) = Inl (AttributeError ''self'')
   \<and> (\<forall>msg. predict example_collab
       (snd (fit example_collab example_X3 (Scalar 2) (Scalar (1/10)) (example_model False True)))
       (Ndarray example_Y) \<noteq> Inl (ValueError msg))"
proof -
  let ?m = "snd (fit example_collab example_X3 (Scalar 2) (Scalar (1/10)) (example_model False True))"
  note r = example3_fit_returns[of False True]
  have f: "fit_trial_factors ?m"
    using fit_keeps_flags(1)[OF r] by (simp add: example_model_def TWPCA_init_def)
  have s: "shape3 example_X3 = (1, 2, 1)" "shape3 example_Y = (2, 2, 1)"
    by (simp_all add: shape3_def example_X3_def example_Y_def)
  show ?thesis
    using r s predict_trial_factors_fails[OF fit_fitted[OF r] fit_keeps_flags(4)[OF r] f]
    by simp
qed

text \<open>The same call on the object fitted without trial factors raises the \<open>ValueError\<close>.\<close>

lemma predict_mismatch_example:
  "\<exists>msg. predict example_collab
       (snd (fit example_collab example_X3 (Scalar 2) (Scalar (1/10)) (example_model False False)))
       (Ndarray example_Y) = Inl (ValueError msg)"
proof -
  let ?m = "snd (fit example_collab example_X3 (Scalar 2) (Scalar (1/10)) (example_model False False))"
  note r = example3_fit_returns[of False False]
  have f: "\<not> fit_trial_factors ?m"
    using fit_keeps_flags(1)[OF r] by (simp add: example_model_def TWPCA_init_def)
  from fit_result[OF r] obtain rs w0 inits v vals where
    m': "?m = (fit_built example_collab example_X3 rs w0 inits (example_model False False))
                \<lparr>sess := Some v, obj_history := Some vals\<rparr>"
    by blast
  let ?wtf = "warped_node example_collab (length example_X3)
                (factor_node (nonneg (example_model False False :: (unit, unit) twpca))
                   time_factors)
                (warp_param_node example_collab)"
  have v: "sess ?m = Some v" by (subst m') simp
  have w: "warped_time_factors ?m = Some ?wtf" by (subst m') (simp add: fit_built_graph)
  have "length (?wtf v) = 1"
    by (simp add: warped_node_def tile_trials_def example_collab_def example_X3_def)
  then have "length (?wtf v) \<noteq> fst (shape3 example_Y)"
    by (simp add: shape3_def example_Y_def)
  then show ?thesis by (intro predict_shape_mismatch[OF v w f] disjI1)
qed

end
